theory Spec2Isabelle
  imports Complex_Main
begin

section \<open>The mutation server client of vscode-stryker\<close>

text \<open>
  The class \<open>MutationServer\<close> launches the mutation-testing engine as a child process,
  reads the listening port from the engine's standard output, opens a WebSocket to that
  port and talks JSON-RPC over it. The class is event driven: every callback it registers
  runs to completion (together with the promise continuations it releases) before the next
  I/O event is handled. The embedding follows that: the instance is a record, every
  callback is a function from the instance to the updated instance and the list of calls
  it made on its collaborators (logger, socket, notification subject, RPC client, promise
  resolvers, caller-supplied callbacks), and an execution is a list of events.
\<close>

subsection \<open>JavaScript values that come out of \<open>JSON.parse\<close>\<close>

text \<open>
  Numbers are carried by their exact value; only the test against zero and equality are
  ever applied to them. An object is the list of its fields.
\<close>

datatype json =
    JNull
  | JBool bool
  | JNum rat
  | JStr string
  | JArr "json list"
  | JObj "(string \<times> json) list"

text \<open>Truthiness, as \<open>if (x)\<close> and \<open>!x\<close> test it. \<open>undefined\<close> is \<open>None\<close>.\<close>

fun truthy :: "json \<Rightarrow> bool" where
  "truthy JNull = False"
| "truthy (JBool b) = b"
| "truthy (JNum n) = (n \<noteq> 0)"
| "truthy (JStr s) = (s \<noteq> [])"
| "truthy (JArr xs) = True"
| "truthy (JObj fs) = True"

definition truthy_opt :: "json option \<Rightarrow> bool" where
  "truthy_opt v = (case v of None \<Rightarrow> False | Some x \<Rightarrow> truthy x)"

text \<open>
  Reading one of the properties \<open>id\<close>, \<open>method\<close>, \<open>params\<close>, \<open>token\<close>, \<open>value\<close>,
  \<open>result\<close>, \<open>error\<close> of a value that is neither \<open>null\<close> nor \<open>undefined\<close>: an object
  yields the field when it has one, every other value yields \<open>undefined\<close>.
\<close>

fun get_prop :: "json \<Rightarrow> string \<Rightarrow> json option" where
  "get_prop (JObj fs) k = map_of fs k"
| "get_prop JNull k = None"
| "get_prop (JBool b) k = None"
| "get_prop (JNum n) k = None"
| "get_prop (JStr s) k = None"
| "get_prop (JArr xs) k = None"

subsection \<open>Messages, errors and effects\<close>

text \<open>
  Modelled from the spec: the logger (\<open>utils/logger\<close>) and the texts of \<open>config\<close> are not
  among the sources. The logger is the capability of the spec, with \<open>logInfo\<close>, \<open>logError\<close>
  and an error notification; a call on it is recorded as an effect. The texts handed to
  it and to \<open>new Error\<close> are the constructors below: the two constants of \<open>config.errors\<close>
  are constructors of their own, the template strings carry the values interpolated into
  them.
\<close>

text \<open>
  A number read from the settings is carried by the two things the constructor does with
  it: the test \<open>if (mutationServerPort)\<close>, which fails for \<open>0\<close> and \<open>NaN\<close>, and the text
  that \<open>toString()\<close> prints, whatever the number is (negative, fractional, in exponent
  notation).
\<close>

record number_setting =
  number_truthy :: bool
  number_text :: string

text \<open>
  A number that \<open>parseInt\<close> reads from a string of digits is a double. Up to \<open>2 ^ 53\<close>
  every integer is a double and the number is the integer itself; beyond that it is a
  double near the numeral (which one is left to the implementation when there are more
  than twenty digits), carried here by the digits it was read from and not computed.
\<close>

datatype js_number = Integer nat | Inexact string

datatype message =
    MutationServerExecutablePathNotSet
  | MutationServerFailed
  | FailedToStart string "number_setting option"
  | ExitedWithCode "int option"
  | ProcessOutput string
  | ErrorParsingJSON string
  | WebSocketError string

datatype js_error = Error message | TypeError | SyntaxError | WebSocketNotOpen

datatype 'a promise = Pending | Fulfilled 'a | Rejected js_error

text \<open>\<open>resolve(v)\<close> settles a pending promise and does nothing to a settled one.\<close>

definition resolve :: "'a promise \<Rightarrow> 'a \<Rightarrow> 'a promise" where
  "resolve p v = (case p of Pending \<Rightarrow> Fulfilled v | Fulfilled w \<Rightarrow> Fulfilled w | Rejected e \<Rightarrow> Rejected e)"

text \<open>
  The packages ws, rxjs and json-rpc-2.0 are dependencies of the class. What the class
  uses of them is modelled as the packages document it: the ready states of a socket and
  its \<open>open\<close>, \<open>message\<close>, \<open>error\<close> and \<open>close\<close> events; a subject that hands each value to
  its observers in the order of subscription; a client that numbers its requests, keeps
  the pending ones in a table and settles them in \<open>receive\<close> (the RPC client of the spec).
\<close>

datatype ready_state = CONNECTING | OPEN | CLOSING | CLOSED

text \<open>
  Modelled from the spec: the declarations of \<open>MutateParams\<close>, \<open>InstrumentParams\<close> and
  \<open>ProgressParams\<close> (\<open>mutation-server-methods\<close>) are not among the sources. The spec
  makes the token an opaque string or number chosen by the caller; the remaining
  parameters are an opaque JSON value.
\<close>

datatype progress_token = TokenString string | TokenNumber rat

record mutate_params =
  partialResultToken :: progress_token
  mutate_options :: json

type_synonym callback = nat

datatype call = Mutate mutate_params callback | Instrument json

record json_rpc_request =
  request_id :: nat
  request_method :: string
  request_params :: call

datatype outcome =
    Resolved "json option"
  | RejectedRpcError json
  | RejectedUnexpected
  | RejectedSendFailed js_error
  | RejectedNotSetUp

text \<open>
  The calls the class makes on the objects around it, in the order it makes them.
  \<open>WsSend s r\<close> is \<open>webSocket.send(JSON.stringify(r))\<close> called while the socket's ready
  state is \<open>s\<close>; \<open>ResolvePort n\<close> is the call of \<open>resolve(n)\<close> by the port scanner;
  \<open>Settled c out\<close> is the promise returned by \<open>mutate\<close> or \<open>instrument\<close> being settled;
  \<open>Uncaught e\<close> is an exception that escapes a handler or that rxjs reports as unhandled;
  \<open>CreateRejected e\<close> is the promise returned by \<open>create\<close> being rejected after the
  constructor has succeeded (when it is fulfilled the instance is handed to the caller and
  nothing else happens).
\<close>

datatype effect =
    LogInfo message
  | LogError message
  | ErrorNotification message
  | ResolvePort js_number
  | SubjectNext json
  | Receive json
  | OnPartialResult callback "json option"
  | WsSend ready_state json_rpc_request
  | Settled call outcome
  | Uncaught js_error
  | CreateRejected js_error

subsection \<open>The instance\<close>

record child_process =
  spawnfile :: string
  spawnargs :: "string list"
  spawn_cwd :: string
  pid :: nat

datatype stdout_listener = LogStdout | ScanPort

text \<open>
  An \<open>open\<close> listener registered by \<open>waitForOpenSocket\<close>: the closure that resolves one
  promise, whether that promise is settled, and the request whose send adapter awaits it.
\<close>

record open_wait =
  settled :: bool
  awaiting :: json_rpc_request

record web_socket =
  url_port :: nat
  readyState :: ready_state
  open_listeners :: "open_wait list"

text \<open>
  \<open>JSONRPCClient\<close> of the package json-rpc-2.0: a counter for request ids (the first id
  is 1) and the table of requests waiting for their response.
\<close>

record json_rpc_client =
  last_id :: nat
  idToResolveMap :: "(nat \<times> call) list"

text \<open>An observer of \<open>notification$Subject\<close>, as \<open>mutate\<close> subscribes it.\<close>

record subscription =
  sub_token :: progress_token
  sub_callback :: callback

record mutation_server =
  process :: child_process
  stdout_listeners :: "stdout_listener list"
  port_promise :: "js_number promise"
  webSocket :: "web_socket option"
  rpcClient :: "json_rpc_client option"
  observers :: "subscription list"

subsection \<open>The constructor\<close>

text \<open>
  What the constructor reads from its surroundings: the two settings,
  \<open>vscode.workspace.workspaceFolders\<close> (undefined when no folder is open, else the paths of
  the folders) and \<open>child_process.spawn\<close>, which yields the process id, or none when the
  process could not be started. Of the three listeners the constructor registers on the process, the one
  for \<open>data\<close> on standard output is in the list of listeners, since port discovery adds a
  second one there; the ones for \<open>exit\<close> and for \<open>data\<close> on standard error are the only
  ones of their events and are the functions \<open>on_exit\<close> and \<open>on_stderr_data\<close> below.
\<close>

record environment =
  mutationServerExecutablePath :: "string option"
  mutationServerPort :: "number_setting option"
  workspaceFolders :: "string list option"
  spawn :: "string \<Rightarrow> string list \<Rightarrow> string \<Rightarrow> nat option"

definition port_args :: "number_setting option \<Rightarrow> string list" where
  "port_args p =
     (case p of
        None \<Rightarrow> []
      | Some n \<Rightarrow> if number_truthy n then [''--port'', number_text n] else [])"

text \<open>
  \<open>vscode.workspace.workspaceFolders![0].uri.fsPath\<close>. The \<open>!\<close> is an assertion for the
  type checker and does nothing when the code runs: with no folder open, reading element
  0 of \<open>undefined\<close>, or \<open>uri\<close> of the missing element 0 of an empty array, throws a
  TypeError.
\<close>

definition first_workspace_folder :: "string list option \<Rightarrow> js_error + string" where
  "first_workspace_folder folders =
     (case folders of
        None \<Rightarrow> Inl TypeError
      | Some [] \<Rightarrow> Inl TypeError
      | Some (folder # others) \<Rightarrow> Inr folder)"

text \<open>
  The constructor. The argument \<open>cwd\<close> is evaluated before \<open>spawn\<close> is called, so the
  TypeError of a missing workspace folder leaves the constructor before any process is
  started, and nothing is logged for it.
\<close>

definition MutationServer_new :: "environment \<Rightarrow> (js_error + mutation_server) \<times> effect list" where
  "MutationServer_new env =
     (case mutationServerExecutablePath env of
        None \<Rightarrow>
          (Inl (Error MutationServerExecutablePathNotSet),
           [LogError MutationServerExecutablePathNotSet])
      | Some path \<Rightarrow>
          if path = [] then
            (Inl (Error MutationServerExecutablePathNotSet),
             [LogError MutationServerExecutablePathNotSet])
          else
            (let args = port_args (mutationServerPort env) in
             case first_workspace_folder (workspaceFolders env) of
               Inl e \<Rightarrow> (Inl e, [])
             | Inr cwd \<Rightarrow>
                 (case spawn env path args cwd of
                    None \<Rightarrow>
                      (Inl (Error MutationServerFailed),
                       [LogError (FailedToStart path (mutationServerPort env))])
                  | Some p \<Rightarrow>
                      (Inr \<lparr> process = \<lparr> spawnfile = path, spawnargs = args,
                                          spawn_cwd = cwd, pid = p \<rparr>,
                             stdout_listeners = [LogStdout],
                             port_promise = Pending,
                             webSocket = None,
                             rpcClient = None,
                             observers = [] \<rparr>,
                       []))))"

subsection \<open>Port discovery\<close>

definition banner :: string where
  "banner = ''Server is listening on port: ''"

definition is_digit :: "char \<Rightarrow> bool" where
  "is_digit c = (c \<in> set ''0123456789'')"

text \<open>
  \<open>/Server is listening on port: (\d+)/.exec(s)\<close>: the leftmost position where the
  banner is followed by a digit, and there the longest run of digits (the first group).
\<close>

fun banner_exec :: "string \<Rightarrow> string option" where
  "banner_exec [] = None"
| "banner_exec (c # cs) =
     (let ds = takeWhile is_digit (drop (length banner) (c # cs)) in
      if take (length banner) (c # cs) = banner \<and> ds \<noteq> [] then Some ds
      else banner_exec cs)"

text \<open>The integer that a string of decimal digits denotes.\<close>

definition decimal :: "string \<Rightarrow> nat" where
  "decimal ds = foldl (\<lambda>n c. 10 * n + (of_char c - 48)) 0 ds"

text \<open>The decimal numeral of a number, as the engine prints its port in the banner.\<close>

fun string_of_nat :: "nat \<Rightarrow> string" where
  "string_of_nat n =
     (if n < 10 then [''0123456789'' ! n]
      else string_of_nat (n div 10) @ [''0123456789'' ! (n mod 10)])"

declare string_of_nat.simps [simp del]

text \<open>\<open>parseInt(ds, 10)\<close> on a non-empty string of decimal digits.\<close>

definition parseInt :: "string \<Rightarrow> js_number" where
  "parseInt ds = (if decimal ds \<le> 2 ^ 53 then Integer (decimal ds) else Inexact ds)"

text \<open>
  \<open>waitForMutationServerStarted\<close> up to its \<open>await\<close>: the promise is created and the
  scanning listener is registered behind the logging one.
\<close>

definition waitForMutationServerStarted :: "mutation_server \<Rightarrow> mutation_server" where
  "waitForMutationServerStarted s =
     s\<lparr> stdout_listeners := stdout_listeners s @ [ScanPort], port_promise := Pending \<rparr>"

text \<open>
  \<open>connectViaWebSocket\<close>: a new socket, connecting, with no \<open>open\<close> listener yet.
  \<open>new WebSocket\<close> throws a SyntaxError when the address is not a URL, which is so for a
  port above 65535 and for a number that is printed in exponent notation.
\<close>

definition connectViaWebSocket :: "mutation_server \<Rightarrow> js_number \<Rightarrow> js_error + mutation_server" where
  "connectViaWebSocket s port =
     (case port of
        Integer n \<Rightarrow>
          if n \<le> 65535 then
            Inr (s\<lparr> webSocket :=
                       Some \<lparr> url_port = n, readyState = CONNECTING, open_listeners = [] \<rparr> \<rparr>)
          else Inl SyntaxError
      | Inexact ds \<Rightarrow> Inl SyntaxError)"

text \<open>
  \<open>connect\<close> after the port has arrived: the socket, then the RPC client. When the
  socket cannot be made, \<open>connect\<close> and with it \<open>create\<close> are rejected, and the instance
  has neither socket nor client.
\<close>

definition connect_resume :: "mutation_server \<Rightarrow> js_number \<Rightarrow> mutation_server \<times> effect list" where
  "connect_resume s port =
     (case connectViaWebSocket s port of
        Inl e \<Rightarrow> (s, [CreateRejected e])
      | Inr s' \<Rightarrow> (s'\<lparr> rpcClient := Some \<lparr> last_id = 0, idToResolveMap = [] \<rparr> \<rparr>, []))"

text \<open>
  \<open>create\<close> up to the first \<open>await\<close> that suspends: the constructor, then \<open>connect\<close>,
  which starts the port wait in the same turn.
\<close>

definition create :: "environment \<Rightarrow> (js_error + mutation_server) \<times> effect list" where
  "create env =
     (case MutationServer_new env of
        (Inl e, out) \<Rightarrow> (Inl e, out)
      | (Inr s, out) \<Rightarrow> (Inr (waitForMutationServerStarted s), out))"

text \<open>One \<open>data\<close> listener of the process's standard output, applied to a chunk.\<close>

fun stdout_listener_call :: "string \<Rightarrow> mutation_server \<times> effect list \<Rightarrow> stdout_listener
    \<Rightarrow> mutation_server \<times> effect list" where
  "stdout_listener_call chunk (s, out) LogStdout = (s, out @ [LogInfo (ProcessOutput chunk)])"
| "stdout_listener_call chunk (s, out) ScanPort =
     (case banner_exec chunk of
        None \<Rightarrow> (s, out)
      | Some ds \<Rightarrow>
          (case port_promise s of
             Pending \<Rightarrow>
               (fst (connect_resume
                       (s\<lparr> port_promise := resolve (port_promise s) (parseInt ds) \<rparr>)
                       (parseInt ds)),
                out @ [ResolvePort (parseInt ds)]
                  @ snd (connect_resume
                           (s\<lparr> port_promise := resolve (port_promise s) (parseInt ds) \<rparr>)
                           (parseInt ds)))
           | Fulfilled w \<Rightarrow>
               (s\<lparr> port_promise := resolve (port_promise s) (parseInt ds) \<rparr>,
                out @ [ResolvePort (parseInt ds)])
           | Rejected e \<Rightarrow>
               (s\<lparr> port_promise := resolve (port_promise s) (parseInt ds) \<rparr>,
                out @ [ResolvePort (parseInt ds)])))"

definition on_stdout_data :: "mutation_server \<Rightarrow> string \<Rightarrow> mutation_server \<times> effect list" where
  "on_stdout_data s chunk = foldl (stdout_listener_call chunk) (s, []) (stdout_listeners s)"

definition on_stderr_data :: "mutation_server \<Rightarrow> string \<Rightarrow> mutation_server \<times> effect list" where
  "on_stderr_data s chunk = (s, [LogError (ProcessOutput chunk)])"

definition on_exit :: "mutation_server \<Rightarrow> int option \<Rightarrow> mutation_server \<times> effect list" where
  "on_exit s code = (s, [LogInfo (ExitedWithCode code)])"

subsection \<open>The socket and the send adapter\<close>

text \<open>
  \<open>waitForOpenSocket\<close>. The second argument names the request whose send adapter awaits
  the promise, so that the listener can be told apart; the source's function does not
  look at it.
\<close>

definition waitForOpenSocket :: "web_socket \<Rightarrow> json_rpc_request \<Rightarrow> web_socket \<times> unit promise" where
  "waitForOpenSocket socket r =
     (if readyState socket \<noteq> OPEN then
        (socket\<lparr> open_listeners := open_listeners socket @ [\<lparr> settled = False, awaiting = r \<rparr>] \<rparr>,
         Pending)
      else (socket, Fulfilled ()))"

text \<open>
  json-rpc-2.0, when the send function fails: the request is taken out of the table and
  its promise is rejected.
\<close>

definition send_failed :: "mutation_server \<Rightarrow> json_rpc_request \<Rightarrow> js_error
    \<Rightarrow> mutation_server \<times> effect list" where
  "send_failed s r e =
     (case rpcClient s of
        None \<Rightarrow> (s, [Settled (request_params r) (RejectedSendFailed e)])
      | Some c \<Rightarrow>
          (s\<lparr> rpcClient :=
                Some (c\<lparr> idToResolveMap :=
                            filter (\<lambda>(k, cl). k \<noteq> request_id r) (idToResolveMap c) \<rparr>) \<rparr>,
           [Settled (request_params r) (RejectedSendFailed e)]))"

text \<open>
  \<open>this.webSocket!.send(JSON.stringify(jsonRpcRequest))\<close>. The package ws throws when
  the socket is still connecting and drops the data when it is closing or closed.
\<close>

definition socket_send :: "mutation_server \<Rightarrow> json_rpc_request \<Rightarrow> mutation_server \<times> effect list" where
  "socket_send s r =
     (case webSocket s of
        None \<Rightarrow> send_failed s r TypeError
      | Some socket \<Rightarrow>
          if readyState socket = CONNECTING then
            (fst (send_failed s r WebSocketNotOpen),
             WsSend CONNECTING r # snd (send_failed s r WebSocketNotOpen))
          else (s, [WsSend (readyState socket) r]))"

text \<open>
  The function given to \<open>new JSONRPCClient\<close>: await \<open>waitForOpenSocket\<close>, then send.
  When the promise is pending the adapter is suspended and the instance only gains the
  listener.
\<close>

definition send_adapter :: "mutation_server \<Rightarrow> json_rpc_request \<Rightarrow> mutation_server \<times> effect list" where
  "send_adapter s r =
     (case webSocket s of
        None \<Rightarrow> send_failed s r TypeError
      | Some socket \<Rightarrow>
          (case waitForOpenSocket socket r of
             (socket', Pending) \<Rightarrow> (s\<lparr> webSocket := Some socket' \<rparr>, [])
           | (socket', Fulfilled u) \<Rightarrow> socket_send (s\<lparr> webSocket := Some socket' \<rparr>) r
           | (socket', Rejected e) \<Rightarrow> send_failed (s\<lparr> webSocket := Some socket' \<rparr>) r e))"

text \<open>
  The socket's \<open>open\<close> event: the ready state is \<open>OPEN\<close>, every listener runs and
  resolves its promise, then the adapters that were awaiting a pending one go on, in the
  order of registration. The listeners stay registered.
\<close>

definition send_next :: "mutation_server \<times> effect list \<Rightarrow> json_rpc_request
    \<Rightarrow> mutation_server \<times> effect list" where
  "send_next acc r = (fst (socket_send (fst acc) r), snd acc @ snd (socket_send (fst acc) r))"

definition on_open :: "mutation_server \<Rightarrow> mutation_server \<times> effect list" where
  "on_open s =
     (case webSocket s of
        None \<Rightarrow> (s, [])
      | Some socket \<Rightarrow>
          foldl send_next
            (s\<lparr> webSocket :=
                  Some (socket\<lparr> readyState := OPEN,
                                open_listeners :=
                                  map (\<lambda>w. w\<lparr> settled := True \<rparr>) (open_listeners socket) \<rparr>) \<rparr>,
             [])
            (map awaiting (filter (\<lambda>w. \<not> settled w) (open_listeners socket))))"

text \<open>The socket's \<open>error\<close> listener. The package ws sets the state before it emits.\<close>

definition on_error :: "mutation_server \<Rightarrow> string \<Rightarrow> mutation_server \<times> effect list" where
  "on_error s err =
     (case webSocket s of
        None \<Rightarrow> (s, [])
      | Some socket \<Rightarrow>
          (s\<lparr> webSocket := Some (socket\<lparr> readyState := CLOSING \<rparr>) \<rparr>,
           [LogError (WebSocketError err), ErrorNotification MutationServerFailed]))"

text \<open>The socket's \<open>close\<close> event; the class registers no listener for it.\<close>

definition on_close :: "mutation_server \<Rightarrow> mutation_server \<times> effect list" where
  "on_close s =
     (case webSocket s of
        None \<Rightarrow> (s, [])
      | Some socket \<Rightarrow> (s\<lparr> webSocket := Some (socket\<lparr> readyState := CLOSED \<rparr>) \<rparr>, []))"

subsection \<open>The RPC client\<close>

text \<open>
  \<open>request\<close> of json-rpc-2.0: the next id, the entry in the table, then the send
  function.
\<close>

definition rpc_request :: "mutation_server \<Rightarrow> json_rpc_client \<Rightarrow> string \<Rightarrow> call
    \<Rightarrow> mutation_server \<times> effect list" where
  "rpc_request s c m cl =
     send_adapter
       (s\<lparr> rpcClient :=
             Some (c\<lparr> last_id := last_id c + 1,
                       idToResolveMap := idToResolveMap c @ [(last_id c + 1, cl)] \<rparr>) \<rparr>)
       \<lparr> request_id = last_id c + 1, request_method = m, request_params = cl \<rparr>"

text \<open>The entry of the table that a response's \<open>id\<close> selects; the keys are numbers.\<close>

definition pending_call :: "json_rpc_client \<Rightarrow> json option \<Rightarrow> (nat \<times> call) option" where
  "pending_call c i =
     (case i of
        Some (JNum n) \<Rightarrow> find (\<lambda>(k, cl). of_nat k = n) (idToResolveMap c)
      | Some JNull \<Rightarrow> None
      | Some (JBool b) \<Rightarrow> None
      | Some (JStr t) \<Rightarrow> None
      | Some (JArr xs) \<Rightarrow> None
      | Some (JObj fs) \<Rightarrow> None
      | None \<Rightarrow> None)"

text \<open>
  How \<open>request\<close> settles once the response is there: a result and no error resolves
  (\<open>mutate\<close> discards the result), an error and no result rejects with that error,
  anything else rejects as unexpected.
\<close>

definition response_outcome :: "call \<Rightarrow> json \<Rightarrow> outcome" where
  "response_outcome cl response =
     (case get_prop response ''error'' of
        None \<Rightarrow>
          (if get_prop response ''result'' \<noteq> None then
             Resolved (case cl of Mutate p cb \<Rightarrow> None
                       | Instrument p \<Rightarrow> get_prop response ''result'')
           else RejectedUnexpected)
      | Some e \<Rightarrow>
          (if get_prop response ''result'' \<noteq> None \<and> \<not> truthy e then
             Resolved (case cl of Mutate p cb \<Rightarrow> None
                       | Instrument p \<Rightarrow> get_prop response ''result'')
           else if get_prop response ''result'' = None \<and> truthy e then RejectedRpcError e
           else RejectedUnexpected))"

text \<open>
  \<open>this.rpcClient!.receive(response)\<close> for the single responses the message handler
  passes (an array has no \<open>id\<close> and never gets here): a response whose id is in the table
  settles that request and removes the entry, any other response is discarded. A response
  is taken to arrive after its request has been sent.
\<close>

definition rpc_receive :: "mutation_server \<Rightarrow> json \<Rightarrow> mutation_server \<times> effect list" where
  "rpc_receive s response =
     (case rpcClient s of
        None \<Rightarrow> (s, [Uncaught TypeError])
      | Some c \<Rightarrow>
          (case pending_call c (get_prop response ''id'') of
             None \<Rightarrow> (s, [Receive response])
           | Some (i, cl) \<Rightarrow>
               (s\<lparr> rpcClient :=
                     Some (c\<lparr> idToResolveMap :=
                                 filter (\<lambda>(k, cl'). k \<noteq> i) (idToResolveMap c) \<rparr>) \<rparr>,
                [Receive response, Settled cl (response_outcome cl response)])))"

subsection \<open>The notification subject\<close>

text \<open>\<open>progress.token === params.partialResultToken\<close>.\<close>

fun token_equals :: "json option \<Rightarrow> progress_token \<Rightarrow> bool" where
  "token_equals (Some (JStr s)) (TokenString t) = (s = t)"
| "token_equals (Some (JNum n)) (TokenNumber m) = (n = m)"
| "token_equals v t = False"

text \<open>
  One observer's pipeline, as \<open>mutate\<close> builds it: keep the \<open>progress\<close> messages, take
  their parameters, keep those with the observer's token, take their value, call the
  callback. Reading \<open>token\<close> of missing or \<open>null\<close> parameters throws inside the filter;
  rxjs then ends that subscription and reports the error as unhandled. The result is the
  observer when it stays subscribed.
\<close>

definition observer_next :: "json \<Rightarrow> subscription \<Rightarrow> subscription option \<times> effect list" where
  "observer_next m sub =
     (if get_prop m ''method'' \<noteq> Some (JStr ''progress'') then (Some sub, [])
      else
        (case get_prop m ''params'' of
           None \<Rightarrow> (None, [Uncaught TypeError])
         | Some JNull \<Rightarrow> (None, [Uncaught TypeError])
         | Some (JBool b) \<Rightarrow> (Some sub, [])
         | Some (JNum n) \<Rightarrow> (Some sub, [])
         | Some (JStr t) \<Rightarrow> (Some sub, [])
         | Some (JArr xs) \<Rightarrow> (Some sub, [])
         | Some (JObj fs) \<Rightarrow>
             (if token_equals (map_of fs ''token'') (sub_token sub)
              then (Some sub, [OnPartialResult (sub_callback sub) (map_of fs ''value'')])
              else (Some sub, []))))"

text \<open>\<open>notification$Subject.next(m)\<close>: every observer in the order of subscription.\<close>

definition subject_next :: "subscription list \<Rightarrow> json \<Rightarrow> subscription list \<times> effect list" where
  "subject_next obs m =
     (List.map_filter (\<lambda>sub. fst (observer_next m sub)) obs,
      concat (map (\<lambda>sub. snd (observer_next m sub)) obs))"

definition notification_next :: "mutation_server \<Rightarrow> json \<Rightarrow> mutation_server \<times> effect list" where
  "notification_next s m =
     (s\<lparr> observers := fst (subject_next (observers s) m) \<rparr>,
      SubjectNext m # snd (subject_next (observers s) m))"

subsection \<open>The message handler\<close>

text \<open>
  The socket's \<open>message\<close> listener. \<open>JSON.parse\<close> is a parameter: it yields the parsed
  value, or nothing when it throws.
\<close>

definition on_message :: "(string \<Rightarrow> json option) \<Rightarrow> mutation_server \<Rightarrow> string
    \<Rightarrow> mutation_server \<times> effect list" where
  "on_message JSON_parse s data =
     (case JSON_parse data of
        None \<Rightarrow> (s, [LogError (ErrorParsingJSON data)])
      | Some response \<Rightarrow>
          if truthy response then
            (if \<not> truthy_opt (get_prop response ''id'') then notification_next s response
             else rpc_receive s response)
          else (s, []))"

subsection \<open>The public operations\<close>

definition instrument :: "mutation_server \<Rightarrow> json \<Rightarrow> mutation_server \<times> effect list" where
  "instrument s params =
     (case rpcClient s of
        None \<Rightarrow> (s, [Settled (Instrument params) RejectedNotSetUp])
      | Some c \<Rightarrow> rpc_request s c ''instrument'' (Instrument params))"

definition mutate :: "mutation_server \<Rightarrow> mutate_params \<Rightarrow> callback
    \<Rightarrow> mutation_server \<times> effect list" where
  "mutate s params onPartialResult =
     (case rpcClient s of
        None \<Rightarrow> (s, [Settled (Mutate params onPartialResult) RejectedNotSetUp])
      | Some c \<Rightarrow>
          rpc_request
            (s\<lparr> observers :=
                  observers s @ [\<lparr> sub_token = partialResultToken params,
                                   sub_callback = onPartialResult \<rparr>] \<rparr>)
            c ''mutate'' (Mutate params onPartialResult))"

subsection \<open>Executions\<close>

datatype event =
    ProcessExit "int option"
  | StdoutData string
  | StderrData string
  | SocketOpen
  | SocketMessage string
  | SocketError string
  | SocketClose
  | CallMutate mutate_params callback
  | CallInstrument json

text \<open>
  One event, handled to completion. A socket event needs the socket: before
  \<open>connectViaWebSocket\<close> there is none and nothing listens.
\<close>

fun step :: "(string \<Rightarrow> json option) \<Rightarrow> mutation_server \<Rightarrow> event
    \<Rightarrow> mutation_server \<times> effect list" where
  "step JSON_parse s (ProcessExit code) = on_exit s code"
| "step JSON_parse s (StdoutData chunk) = on_stdout_data s chunk"
| "step JSON_parse s (StderrData chunk) = on_stderr_data s chunk"
| "step JSON_parse s SocketOpen = on_open s"
| "step JSON_parse s (SocketMessage data) =
     (case webSocket s of None \<Rightarrow> (s, []) | Some socket \<Rightarrow> on_message JSON_parse s data)"
| "step JSON_parse s (SocketError err) = on_error s err"
| "step JSON_parse s SocketClose = on_close s"
| "step JSON_parse s (CallMutate params onPartialResult) = mutate s params onPartialResult"
| "step JSON_parse s (CallInstrument params) = instrument s params"

fun run :: "(string \<Rightarrow> json option) \<Rightarrow> mutation_server \<Rightarrow> event list
    \<Rightarrow> mutation_server \<times> effect list" where
  "run JSON_parse s [] = (s, [])"
| "run JSON_parse s (e # es) =
     (fst (run JSON_parse (fst (step JSON_parse s e)) es),
      snd (step JSON_parse s e) @ snd (run JSON_parse (fst (step JSON_parse s e)) es))"

subsection \<open>Predicates used in the statements\<close>

definition socket_is_open :: "mutation_server \<Rightarrow> bool" where
  "socket_is_open s = (case webSocket s of None \<Rightarrow> False | Some socket \<Rightarrow> readyState socket = OPEN)"

text \<open>The ready state a call of \<open>send\<close> was made in, for the effects that are one.\<close>

fun send_state :: "effect \<Rightarrow> ready_state option" where
  "send_state (WsSend rs r) = Some rs"
| "send_state (LogInfo m) = None"
| "send_state (LogError m) = None"
| "send_state (ErrorNotification m) = None"
| "send_state (ResolvePort n) = None"
| "send_state (SubjectNext m) = None"
| "send_state (Receive m) = None"
| "send_state (OnPartialResult cb v) = None"
| "send_state (Settled cl out) = None"
| "send_state (Uncaught e) = None"
| "send_state (CreateRejected e) = None"

text \<open>A request rejected because the send function failed.\<close>

fun is_send_failure :: "effect \<Rightarrow> bool" where
  "is_send_failure (Settled cl (RejectedSendFailed e)) = True"
| "is_send_failure (Settled cl (Resolved v)) = False"
| "is_send_failure (Settled cl (RejectedRpcError e)) = False"
| "is_send_failure (Settled cl RejectedUnexpected) = False"
| "is_send_failure (Settled cl RejectedNotSetUp) = False"
| "is_send_failure (WsSend rs r) = False"
| "is_send_failure (LogInfo m) = False"
| "is_send_failure (LogError m) = False"
| "is_send_failure (ErrorNotification m) = False"
| "is_send_failure (ResolvePort n) = False"
| "is_send_failure (SubjectNext m) = False"
| "is_send_failure (Receive m) = False"
| "is_send_failure (OnPartialResult cb v) = False"
| "is_send_failure (Uncaught e) = False"
| "is_send_failure (CreateRejected e) = False"

text \<open>The request an event makes the caller issue, when it is a call.\<close>

fun issued_call :: "event \<Rightarrow> call option" where
  "issued_call (CallMutate params cb) = Some (Mutate params cb)"
| "issued_call (CallInstrument params) = Some (Instrument params)"
| "issued_call (ProcessExit code) = None"
| "issued_call (StdoutData chunk) = None"
| "issued_call (StderrData chunk) = None"
| "issued_call SocketOpen = None"
| "issued_call (SocketMessage data) = None"
| "issued_call (SocketError err) = None"
| "issued_call SocketClose = None"

text \<open>
  A frame that ends the subscriptions: a progress notification whose parameters are
  missing or \<open>null\<close>. Reading their \<open>token\<close> throws inside each observer's filter, and rxjs
  ends each subscription on its error.
\<close>

fun ends_subscriptions :: "(string \<Rightarrow> json option) \<Rightarrow> event \<Rightarrow> bool" where
  "ends_subscriptions JSON_parse (SocketMessage data) =
     (case JSON_parse data of
        None \<Rightarrow> False
      | Some m \<Rightarrow>
          truthy m \<and> \<not> truthy_opt (get_prop m ''id'')
          \<and> get_prop m ''method'' = Some (JStr ''progress'')
          \<and> (get_prop m ''params'' = None \<or> get_prop m ''params'' = Some JNull))"
| "ends_subscriptions JSON_parse (ProcessExit code) = False"
| "ends_subscriptions JSON_parse (StdoutData chunk) = False"
| "ends_subscriptions JSON_parse (StderrData chunk) = False"
| "ends_subscriptions JSON_parse SocketOpen = False"
| "ends_subscriptions JSON_parse (SocketError err) = False"
| "ends_subscriptions JSON_parse SocketClose = False"
| "ends_subscriptions JSON_parse (CallMutate params cb) = False"
| "ends_subscriptions JSON_parse (CallInstrument params) = False"

fun is_stdout_banner :: "event \<Rightarrow> bool" where
  "is_stdout_banner (StdoutData chunk) = (banner_exec chunk \<noteq> None)"
| "is_stdout_banner (ProcessExit code) = False"
| "is_stdout_banner (StderrData chunk) = False"
| "is_stdout_banner SocketOpen = False"
| "is_stdout_banner (SocketMessage data) = False"
| "is_stdout_banner (SocketError err) = False"
| "is_stdout_banner SocketClose = False"
| "is_stdout_banner (CallMutate params cb) = False"
| "is_stdout_banner (CallInstrument params) = False"

subsection \<open>A concrete instance\<close>

text \<open>
  An environment with the executable configured and a \<open>spawn\<close> that succeeds, a table
  standing for \<open>JSON.parse\<close> on a few frames, and the instance at three moments: after
  \<open>create\<close> has started, after the banner has been read, after the socket has opened.
\<close>

definition example_env :: environment where
  "example_env =
     \<lparr> mutationServerExecutablePath = Some ''stryker-server'',
       mutationServerPort = Some \<lparr> number_truthy = True, number_text = ''8080'' \<rparr>,
       workspaceFolders = Some [''/work''],
       spawn = (\<lambda>path args cwd. Some 4242) \<rparr>"

definition example_parse :: "string \<Rightarrow> json option" where
  \<open>example_parse =
     map_of
       [(''null'', JNull),
        (''{"method":"progress"}'', JObj [(''method'', JStr ''progress'')]),
        (''{"id":2,"result":[]}'', JObj [(''id'', JNum 2), (''result'', JArr [])]),
        (''{"id":0,"result":[]}'', JObj [(''id'', JNum 0), (''result'', JArr [])]),
        (''{"id":1,"result":[]}'', JObj [(''id'', JNum 1), (''result'', JArr [])]),
        (''{"id":1,"error":{"code":1}}'',
         JObj [(''id'', JNum 1), (''error'', JObj [(''code'', JNum 1)])]),
        (''{"method":"progress","params":{"token":"t1","value":42}}'',
         JObj [(''method'', JStr ''progress''),
               (''params'', JObj [(''token'', JStr ''t1''), (''value'', JNum 42)])]),
        (''{"method":"progress","params":{"token":"t3","value":42}}'',
         JObj [(''method'', JStr ''progress''),
               (''params'', JObj [(''token'', JStr ''t3''), (''value'', JNum 42)])])]\<close>

definition example_created :: mutation_server where
  "example_created =
     \<lparr> process = \<lparr> spawnfile = ''stryker-server'', spawnargs = [''--port'', ''8080''],
                    spawn_cwd = ''/work'', pid = 4242 \<rparr>,
       stdout_listeners = [LogStdout, ScanPort],
       port_promise = Pending,
       webSocket = None,
       rpcClient = None,
       observers = [] \<rparr>"

definition example_connected :: mutation_server where
  "example_connected =
     example_created
       \<lparr> port_promise := Fulfilled (Integer 8080),
         webSocket := Some \<lparr> url_port = 8080, readyState = CONNECTING, open_listeners = [] \<rparr>,
         rpcClient := Some \<lparr> last_id = 0, idToResolveMap = [] \<rparr> \<rparr>"

definition example_ready :: mutation_server where
  "example_ready =
     example_connected
       \<lparr> webSocket := Some \<lparr> url_port = 8080, readyState = OPEN, open_listeners = [] \<rparr> \<rparr>"

definition example_params :: "string \<Rightarrow> mutate_params" where
  "example_params t = \<lparr> partialResultToken = TokenString t, mutate_options = JNull \<rparr>"

definition example_request :: json_rpc_request where
  "example_request =
     \<lparr> request_id = 1, request_method = ''mutate'',
       request_params = Mutate (example_params ''t1'') 7 \<rparr>"

definition example_socket :: "ready_state \<Rightarrow> web_socket" where
  "example_socket rs = \<lparr> url_port = 8080, readyState = rs, open_listeners = [] \<rparr>"

section \<open>Properties\<close>

subsection \<open>What the senders leave alone\<close>

lemma send_failed_fields [simp]:
  "webSocket (fst (send_failed s r e)) = webSocket s"
  "port_promise (fst (send_failed s r e)) = port_promise s"
  "observers (fst (send_failed s r e)) = observers s"
  "stdout_listeners (fst (send_failed s r e)) = stdout_listeners s"
  "snd (send_failed s r e) = [Settled (request_params r) (RejectedSendFailed e)]"
  by (simp_all add: send_failed_def split: option.split)

lemma socket_send_fields [simp]:
  "webSocket (fst (socket_send s r)) = webSocket s"
  "port_promise (fst (socket_send s r)) = port_promise s"
  "observers (fst (socket_send s r)) = observers s"
  "stdout_listeners (fst (socket_send s r)) = stdout_listeners s"
  by (simp_all add: socket_send_def split: option.split)

lemma socket_send_open:
  "webSocket s = Some socket \<Longrightarrow> readyState socket = OPEN \<Longrightarrow> socket_send s r = (s, [WsSend OPEN r])"
  by (simp add: socket_send_def)

lemma send_adapter_open:
  "webSocket s = Some socket \<Longrightarrow> readyState socket = OPEN \<Longrightarrow> send_adapter s r = (s, [WsSend OPEN r])"
  by (simp add: send_adapter_def waitForOpenSocket_def socket_send_open)

lemma send_adapter_waiting:
  "webSocket s = Some socket \<Longrightarrow> readyState socket \<noteq> OPEN \<Longrightarrow>
   send_adapter s r
     = (s\<lparr> webSocket := Some (socket\<lparr> open_listeners :=
             open_listeners socket @ [\<lparr> settled = False, awaiting = r \<rparr>] \<rparr>) \<rparr>, [])"
  by (simp add: send_adapter_def waitForOpenSocket_def)

lemma send_adapter_no_socket:
  "webSocket s = None \<Longrightarrow> send_adapter s r = send_failed s r TypeError"
  by (simp add: send_adapter_def)

lemma send_adapter_fields [simp]:
  "port_promise (fst (send_adapter s r)) = port_promise s"
  "observers (fst (send_adapter s r)) = observers s"
  "stdout_listeners (fst (send_adapter s r)) = stdout_listeners s"
  by (simp_all add: send_adapter_def waitForOpenSocket_def split: option.split)

lemma foldl_send_next_open:
  "webSocket s = Some socket \<Longrightarrow> readyState socket = OPEN \<Longrightarrow>
   foldl send_next (s, out) rs = (s, out @ map (WsSend OPEN) rs)"
  by (induction rs arbitrary: out) (simp_all add: send_next_def socket_send_open)

lemma on_open_result:
  "webSocket s = Some socket \<Longrightarrow>
   on_open s
     = (s\<lparr> webSocket := Some (socket\<lparr> readyState := OPEN,
              open_listeners := map (\<lambda>w. w\<lparr> settled := True \<rparr>) (open_listeners socket) \<rparr>) \<rparr>,
        map (WsSend OPEN) (map awaiting (filter (\<lambda>w. \<not> settled w) (open_listeners socket))))"
  by (simp add: on_open_def foldl_send_next_open [where socket = "socket\<lparr> readyState := OPEN,
              open_listeners := map (\<lambda>w. w\<lparr> settled := True \<rparr>) (open_listeners socket) \<rparr>"])

lemma rpc_request_eq:
  "rpc_request s c m cl =
     send_adapter
       (s\<lparr> rpcClient := Some (c\<lparr> last_id := last_id c + 1,
             idToResolveMap := idToResolveMap c @ [(last_id c + 1, cl)] \<rparr>) \<rparr>)
       \<lparr> request_id = last_id c + 1, request_method = m, request_params = cl \<rparr>"
  by (simp add: rpc_request_def)

subsection \<open>Effects of the handlers\<close>

lemma response_outcome_not_send_failure:
  "\<not> is_send_failure (Settled cl (response_outcome cl' m))"
  by (simp add: response_outcome_def split: option.split)

lemma observer_next_effects:
  "x \<in> set (snd (observer_next m sub)) \<Longrightarrow> send_state x = None \<and> \<not> is_send_failure x"
  by (auto simp: observer_next_def split: option.splits json.splits if_splits)

lemma subject_next_effects:
  "x \<in> set (snd (subject_next obs m)) \<Longrightarrow> send_state x = None \<and> \<not> is_send_failure x"
  by (auto simp: subject_next_def dest: observer_next_effects)

lemma notification_next_fields [simp]:
  "webSocket (fst (notification_next s m)) = webSocket s"
  "port_promise (fst (notification_next s m)) = port_promise s"
  "rpcClient (fst (notification_next s m)) = rpcClient s"
  "stdout_listeners (fst (notification_next s m)) = stdout_listeners s"
  by (simp_all add: notification_next_def)

lemma rpc_receive_fields [simp]:
  "webSocket (fst (rpc_receive s m)) = webSocket s"
  "port_promise (fst (rpc_receive s m)) = port_promise s"
  "observers (fst (rpc_receive s m)) = observers s"
  "stdout_listeners (fst (rpc_receive s m)) = stdout_listeners s"
  by (simp_all add: rpc_receive_def split: option.split prod.split)

lemma rpc_receive_effects:
  "x \<in> set (snd (rpc_receive s m)) \<Longrightarrow> send_state x = None \<and> \<not> is_send_failure x"
  by (auto simp: rpc_receive_def response_outcome_not_send_failure split: option.splits prod.splits)

lemma on_message_fields [simp]:
  "webSocket (fst (on_message p s d)) = webSocket s"
  "port_promise (fst (on_message p s d)) = port_promise s"
  "stdout_listeners (fst (on_message p s d)) = stdout_listeners s"
  by (simp_all add: on_message_def split: option.split)

lemma on_message_effects:
  "x \<in> set (snd (on_message p s d)) \<Longrightarrow> send_state x = None \<and> \<not> is_send_failure x"
  by (auto simp: on_message_def notification_next_def
      dest: subject_next_effects rpc_receive_effects split: option.splits if_splits)

subsection \<open>The standard-output listeners\<close>

lemma connect_resume_cases:
  "connect_resume s port = (s, [CreateRejected SyntaxError])
   \<or> (\<exists>n. port = Integer n \<and> n \<le> 65535
          \<and> connect_resume s port
              = (s\<lparr> webSocket :=
                       Some \<lparr> url_port = n, readyState = CONNECTING, open_listeners = [] \<rparr>,
                     rpcClient := Some \<lparr> last_id = 0, idToResolveMap = [] \<rparr> \<rparr>, []))"
  by (cases port) (simp_all add: connect_resume_def connectViaWebSocket_def)

lemma connect_resume_fields [simp]:
  "stdout_listeners (fst (connect_resume s port)) = stdout_listeners s"
  "port_promise (fst (connect_resume s port)) = port_promise s"
  "observers (fst (connect_resume s port)) = observers s"
  using connect_resume_cases [of s port] by auto

lemma connect_resume_effects:
  "x \<in> set (snd (connect_resume s port)) \<Longrightarrow> send_state x = None \<and> \<not> is_send_failure x"
  using connect_resume_cases [of s port] by auto

lemma connect_resume_not_open:
  "\<not> socket_is_open s \<Longrightarrow> \<not> socket_is_open (fst (connect_resume s port))"
  using connect_resume_cases [of s port] by (auto simp: socket_is_open_def)

lemma stdout_listener_call_fields:
  "stdout_listeners (fst (stdout_listener_call chunk acc l)) = stdout_listeners (fst acc)"
  "observers (fst (stdout_listener_call chunk acc l)) = observers (fst acc)"
  by (cases acc; cases l; simp split: option.split promise.split)+

lemma stdout_listener_call_settled:
  "port_promise (fst acc) \<noteq> Pending \<Longrightarrow>
   webSocket (fst (stdout_listener_call chunk acc l)) = webSocket (fst acc)
   \<and> rpcClient (fst (stdout_listener_call chunk acc l)) = rpcClient (fst acc)
   \<and> port_promise (fst (stdout_listener_call chunk acc l)) = port_promise (fst acc)"
  by (cases acc; cases l; simp add: resolve_def split: option.split promise.split)

lemma stdout_listener_call_effects:
  "\<exists>new. snd (stdout_listener_call chunk acc l) = snd acc @ new
     \<and> (\<forall>x\<in>set new. send_state x = None \<and> \<not> is_send_failure x)"
  by (cases acc; cases l)
     (auto split: option.split promise.split dest: connect_resume_effects)

lemma stdout_listener_call_not_open:
  "\<not> socket_is_open (fst acc) \<Longrightarrow> \<not> socket_is_open (fst (stdout_listener_call chunk acc l))"
proof (cases acc; cases l)
  fix s out assume "acc = (s, out)" "l = LogStdout" "\<not> socket_is_open (fst acc)"
  then show ?thesis by simp
next
  fix s out assume a: "acc = (s, out)" "l = ScanPort" "\<not> socket_is_open (fst acc)"
  then have "\<not> socket_is_open (s\<lparr> port_promise := v \<rparr>)" for v
    by (simp add: socket_is_open_def)
  then show ?thesis
    using a connect_resume_not_open
    by (auto split: option.split promise.split)
qed

lemma stdout_listener_call_not_rejected:
  "(\<forall>e. port_promise (fst acc) \<noteq> Rejected e) \<Longrightarrow>
   port_promise (fst (stdout_listener_call chunk acc l)) \<noteq> Rejected e'"
  by (cases acc; cases l; simp add: resolve_def split: option.split promise.split)

lemma foldl_stdout_fields:
  "stdout_listeners (fst (foldl (stdout_listener_call chunk) acc ls)) = stdout_listeners (fst acc)"
  "observers (fst (foldl (stdout_listener_call chunk) acc ls)) = observers (fst acc)"
  by (induction ls arbitrary: acc) (simp_all add: stdout_listener_call_fields)

lemma foldl_stdout_settled:
  "port_promise (fst acc) \<noteq> Pending \<Longrightarrow>
   webSocket (fst (foldl (stdout_listener_call chunk) acc ls)) = webSocket (fst acc)
   \<and> rpcClient (fst (foldl (stdout_listener_call chunk) acc ls)) = rpcClient (fst acc)
   \<and> port_promise (fst (foldl (stdout_listener_call chunk) acc ls)) = port_promise (fst acc)"
  by (induction ls arbitrary: acc) (simp_all add: stdout_listener_call_settled)

lemma foldl_stdout_effects:
  "\<exists>new. snd (foldl (stdout_listener_call chunk) acc ls) = snd acc @ new
     \<and> (\<forall>x\<in>set new. send_state x = None \<and> \<not> is_send_failure x)"
proof (induction ls arbitrary: acc)
  case Nil
  then show ?case by simp
next
  case (Cons l ls)
  obtain new1 where n1: "snd (stdout_listener_call chunk acc l) = snd acc @ new1"
    "\<forall>x\<in>set new1. send_state x = None \<and> \<not> is_send_failure x"
    using stdout_listener_call_effects by blast
  obtain new2 where n2:
    "snd (foldl (stdout_listener_call chunk) (stdout_listener_call chunk acc l) ls)
       = snd (stdout_listener_call chunk acc l) @ new2"
    "\<forall>x\<in>set new2. send_state x = None \<and> \<not> is_send_failure x"
    using Cons.IH by blast
  have "snd (foldl (stdout_listener_call chunk) acc (l # ls)) = snd acc @ (new1 @ new2)"
    using n1 n2 by simp
  moreover have "\<forall>x\<in>set (new1 @ new2). send_state x = None \<and> \<not> is_send_failure x"
    using n1 n2 by auto
  ultimately show ?case by blast
qed

lemma foldl_stdout_not_open:
  "\<not> socket_is_open (fst acc) \<Longrightarrow>
   \<not> socket_is_open (fst (foldl (stdout_listener_call chunk) acc ls))"
  by (induction ls arbitrary: acc) (simp_all add: stdout_listener_call_not_open)

lemma foldl_stdout_not_rejected:
  "(\<forall>e. port_promise (fst acc) \<noteq> Rejected e) \<Longrightarrow>
   port_promise (fst (foldl (stdout_listener_call chunk) acc ls)) \<noteq> Rejected e'"
proof (induction ls arbitrary: acc)
  case Nil
  then show ?case by simp
next
  case (Cons l ls)
  have "\<forall>e. port_promise (fst (stdout_listener_call chunk acc l)) \<noteq> Rejected e"
    using Cons.prems stdout_listener_call_not_rejected by blast
  then show ?case using Cons.IH by simp
qed

lemma on_stdout_data_effects:
  "x \<in> set (snd (on_stdout_data s chunk)) \<Longrightarrow> send_state x = None \<and> \<not> is_send_failure x"
  using foldl_stdout_effects [of chunk "(s, [])" "stdout_listeners s"]
  by (auto simp: on_stdout_data_def)

subsection \<open>Sends happen on an open socket only\<close>

lemma send_adapter_effects:
  "x \<in> set (snd (send_adapter s r)) \<Longrightarrow> send_state x = None \<or> send_state x = Some OPEN"
  by (cases "webSocket s")
     (auto simp: send_adapter_def waitForOpenSocket_def socket_send_def split: if_splits)

lemma send_adapter_not_open:
  "\<not> socket_is_open s \<Longrightarrow>
   \<not> socket_is_open (fst (send_adapter s r))
   \<and> (\<forall>x\<in>set (snd (send_adapter s r)). send_state x = None)"
  by (cases "webSocket s")
     (auto simp: send_adapter_def waitForOpenSocket_def socket_is_open_def)

lemma on_open_effects:
  "x \<in> set (snd (on_open s)) \<Longrightarrow> send_state x = Some OPEN"
  by (cases "webSocket s") (auto simp: on_open_result, simp add: on_open_def)

lemma step_effects_send_open:
  assumes "x \<in> set (snd (step p s e))"
  shows "send_state x = None \<or> send_state x = Some OPEN"
proof (cases e)
  case (StdoutData chunk)
  then show ?thesis using on_stdout_data_effects assms by auto
next
  case SocketOpen
  then show ?thesis using on_open_effects assms by auto
next
  case (SocketMessage d)
  then show ?thesis using on_message_effects [of x p s d] assms
    by (auto split: option.splits)
next
  case (CallMutate params cb)
  then show ?thesis using assms
    by (auto simp: mutate_def rpc_request_def split: option.splits dest: send_adapter_effects)
next
  case (CallInstrument params)
  then show ?thesis using assms
    by (auto simp: instrument_def rpc_request_def split: option.splits dest: send_adapter_effects)
qed (use assms in \<open>auto simp: on_exit_def on_stderr_data_def on_error_def on_close_def split: option.splits\<close>)

lemma step_not_open:
  assumes "\<not> socket_is_open s" and "e \<noteq> SocketOpen"
  shows "\<not> socket_is_open (fst (step p s e))
         \<and> (\<forall>x\<in>set (snd (step p s e)). send_state x = None)"
proof (cases e)
  case (StdoutData chunk)
  then show ?thesis
    using foldl_stdout_not_open [of "(s, [])" chunk "stdout_listeners s"] assms(1)
      on_stdout_data_effects [of _ s chunk]
    by (auto simp: on_stdout_data_def)
next
  case SocketOpen
  then show ?thesis using assms(2) by simp
next
  case (SocketMessage d)
  then show ?thesis using on_message_effects [of _ p s d] assms(1)
    by (auto simp: socket_is_open_def split: option.splits)
next
  case (CallMutate params cb)
  show ?thesis
  proof (cases "rpcClient s")
    case None
    then show ?thesis using CallMutate assms(1) by (simp add: mutate_def)
  next
    case (Some c)
    have "\<not> socket_is_open (s\<lparr> observers := observers s @
              [\<lparr> sub_token = partialResultToken params, sub_callback = cb \<rparr>],
            rpcClient := Some (c\<lparr> last_id := last_id c + 1,
              idToResolveMap := idToResolveMap c @ [(last_id c + 1, Mutate params cb)] \<rparr>) \<rparr>)"
      using assms(1) by (simp add: socket_is_open_def)
    from send_adapter_not_open [OF this] show ?thesis
      using CallMutate Some by (simp add: mutate_def rpc_request_def)
  qed
next
  case (CallInstrument params)
  show ?thesis
  proof (cases "rpcClient s")
    case None
    then show ?thesis using CallInstrument assms(1) by (simp add: instrument_def)
  next
    case (Some c)
    have "\<not> socket_is_open (s\<lparr> rpcClient := Some (c\<lparr> last_id := last_id c + 1,
              idToResolveMap := idToResolveMap c @ [(last_id c + 1, Instrument params)] \<rparr>) \<rparr>)"
      using assms(1) by (simp add: socket_is_open_def)
    from send_adapter_not_open [OF this] show ?thesis
      using CallInstrument Some by (simp add: instrument_def rpc_request_def)
  qed
qed (use assms(1) in \<open>auto simp: on_exit_def on_stderr_data_def on_error_def on_close_def
       socket_is_open_def split: option.splits\<close>)

lemma run_effects_send_open:
  "x \<in> set (snd (run p s es)) \<Longrightarrow> send_state x = None \<or> send_state x = Some OPEN"
  by (induction es arbitrary: s) (auto dest: step_effects_send_open)

lemma run_not_open:
  "\<not> socket_is_open s \<Longrightarrow> SocketOpen \<notin> set es \<Longrightarrow>
   \<not> socket_is_open (fst (run p s es)) \<and> (\<forall>x\<in>set (snd (run p s es)). send_state x = None)"
proof (induction es arbitrary: s)
  case Nil
  then show ?case by simp
next
  case (Cons e es)
  have e: "e \<noteq> SocketOpen" and es: "SocketOpen \<notin> set es" using Cons.prems(2) by auto
  note st = step_not_open [OF Cons.prems(1) e, of p]
  from Cons.IH [OF conjunct1 [OF st] es] st show ?case by auto
qed

subsection \<open>While the socket is not open, the waits stay pending\<close>

lemma rpc_client_kept:
  "rpcClient s \<noteq> None \<Longrightarrow> rpcClient (fst (send_failed s r e)) \<noteq> None"
  "rpcClient s \<noteq> None \<Longrightarrow> rpcClient (fst (socket_send s r)) \<noteq> None"
  "rpcClient s \<noteq> None \<Longrightarrow> rpcClient (fst (rpc_receive s m)) \<noteq> None"
  "rpcClient s \<noteq> None \<Longrightarrow> rpcClient (fst (on_message p s d)) \<noteq> None"
  by (auto simp: send_failed_def socket_send_def rpc_receive_def on_message_def
      split: option.splits prod.splits)

lemma step_keeps_waiting:
  assumes sock: "webSocket s = Some socket" and closed: "readyState socket \<noteq> OPEN"
    and port: "port_promise s \<noteq> Pending" and client: "rpcClient s \<noteq> None"
    and e: "e \<noteq> SocketOpen"
  shows "\<exists>socket' ws.
           webSocket (fst (step p s e)) = Some socket' \<and> readyState socket' \<noteq> OPEN
           \<and> open_listeners socket' = open_listeners socket @ ws
           \<and> (\<forall>w\<in>set ws. \<not> settled w)
           \<and> (\<forall>cl. issued_call e = Some cl \<longrightarrow> (\<exists>w\<in>set ws. request_params (awaiting w) = cl))
           \<and> port_promise (fst (step p s e)) \<noteq> Pending
           \<and> rpcClient (fst (step p s e)) \<noteq> None
           \<and> (\<forall>x\<in>set (snd (step p s e)). send_state x = None \<and> \<not> is_send_failure x)"
proof (cases e)
  case (ProcessExit code)
  then show ?thesis using sock closed port client by (simp add: on_exit_def)
next
  case (StdoutData chunk)
  have "webSocket (fst (on_stdout_data s chunk)) = Some socket
        \<and> rpcClient (fst (on_stdout_data s chunk)) = rpcClient s
        \<and> port_promise (fst (on_stdout_data s chunk)) = port_promise s"
    using foldl_stdout_settled [of "(s, [])" chunk "stdout_listeners s"] port sock
    by (simp add: on_stdout_data_def)
  then show ?thesis
    using StdoutData closed port client on_stdout_data_effects [of _ s chunk] by auto
next
  case (StderrData chunk)
  then show ?thesis using sock closed port client by (simp add: on_stderr_data_def)
next
  case SocketOpen
  then show ?thesis using e by simp
next
  case (SocketMessage d)
  then show ?thesis
    using sock closed port client on_message_effects [of _ p s d] rpc_client_kept(4) [of s p d]
    by auto
next
  case (SocketError err)
  then show ?thesis using sock closed port client by (simp add: on_error_def)
next
  case SocketClose
  then show ?thesis using sock closed port client by (simp add: on_close_def)
next
  case (CallMutate params cb)
  obtain c where c: "rpcClient s = Some c" using client by auto
  show ?thesis
    using CallMutate c sock closed port
    by (simp add: mutate_def rpc_request_def send_adapter_waiting [where socket = socket])
next
  case (CallInstrument params)
  obtain c where c: "rpcClient s = Some c" using client by auto
  show ?thesis
    using CallInstrument c sock closed port
    by (simp add: instrument_def rpc_request_def send_adapter_waiting [where socket = socket])
qed

lemma run_keeps_waiting:
  assumes "webSocket s = Some socket" and "readyState socket \<noteq> OPEN"
    and "port_promise s \<noteq> Pending" and "rpcClient s \<noteq> None"
    and "SocketOpen \<notin> set es"
  shows "\<exists>socket' ws.
           webSocket (fst (run p s es)) = Some socket' \<and> readyState socket' \<noteq> OPEN
           \<and> open_listeners socket' = open_listeners socket @ ws
           \<and> (\<forall>w\<in>set ws. \<not> settled w)
           \<and> (\<forall>e\<in>set es. \<forall>cl. issued_call e = Some cl \<longrightarrow>
                 (\<exists>w\<in>set ws. request_params (awaiting w) = cl))
           \<and> port_promise (fst (run p s es)) \<noteq> Pending
           \<and> rpcClient (fst (run p s es)) \<noteq> None
           \<and> (\<forall>x\<in>set (snd (run p s es)). send_state x = None \<and> \<not> is_send_failure x)"
  using assms
proof (induction es arbitrary: s socket)
  case Nil
  then show ?case by simp
next
  case (Cons e es)
  have e: "e \<noteq> SocketOpen" and es: "SocketOpen \<notin> set es" using Cons.prems(5) by auto
  obtain socket1 ws1 where s1:
    "webSocket (fst (step p s e)) = Some socket1" "readyState socket1 \<noteq> OPEN"
    "open_listeners socket1 = open_listeners socket @ ws1"
    "\<forall>w\<in>set ws1. \<not> settled w"
    "\<forall>cl. issued_call e = Some cl \<longrightarrow> (\<exists>w\<in>set ws1. request_params (awaiting w) = cl)"
    "port_promise (fst (step p s e)) \<noteq> Pending"
    "rpcClient (fst (step p s e)) \<noteq> None"
    "\<forall>x\<in>set (snd (step p s e)). send_state x = None \<and> \<not> is_send_failure x"
    using step_keeps_waiting [OF Cons.prems(1-4) e, of p] by blast
  obtain socket2 ws2 where s2:
    "webSocket (fst (run p (fst (step p s e)) es)) = Some socket2" "readyState socket2 \<noteq> OPEN"
    "open_listeners socket2 = open_listeners socket1 @ ws2"
    "\<forall>w\<in>set ws2. \<not> settled w"
    "\<forall>e\<in>set es. \<forall>cl. issued_call e = Some cl \<longrightarrow>
        (\<exists>w\<in>set ws2. request_params (awaiting w) = cl)"
    "port_promise (fst (run p (fst (step p s e)) es)) \<noteq> Pending"
    "rpcClient (fst (run p (fst (step p s e)) es)) \<noteq> None"
    "\<forall>x\<in>set (snd (run p (fst (step p s e)) es)). send_state x = None \<and> \<not> is_send_failure x"
    using Cons.IH [OF s1(1) s1(2) s1(6) s1(7) es] by blast
  have "open_listeners socket2 = open_listeners socket @ (ws1 @ ws2)"
    using s1(3) s2(3) by simp
  moreover have "\<forall>w\<in>set (ws1 @ ws2). \<not> settled w"
    using s1(4) s2(4) by auto
  moreover have "\<forall>e'\<in>set (e # es). \<forall>cl. issued_call e' = Some cl \<longrightarrow>
        (\<exists>w\<in>set (ws1 @ ws2). request_params (awaiting w) = cl)"
    using s1(5) s2(5) by (simp add: Bex_def) blast
  moreover have "\<forall>x\<in>set (snd (run p s (e # es))). send_state x = None \<and> \<not> is_send_failure x"
    using s1(8) s2(8) by auto
  ultimately show ?case
    using s2(1) s2(2) s2(6) s2(7) by (intro exI [of _ socket2] exI [of _ "ws1 @ ws2"]) simp
qed

subsection \<open>Routing of parsed messages\<close>

lemma observer_next_progress:
  "get_prop m ''method'' = Some (JStr ''progress'') \<Longrightarrow> get_prop m ''params'' = Some (JObj fs) \<Longrightarrow>
   observer_next m sub
     = (Some sub,
        if token_equals (map_of fs ''token'') (sub_token sub)
        then [OnPartialResult (sub_callback sub) (map_of fs ''value'')] else [])"
  by (simp add: observer_next_def)

lemma subject_next_progress:
  assumes "get_prop m ''method'' = Some (JStr ''progress'')"
    and "get_prop m ''params'' = Some (JObj fs)"
  shows "subject_next obs m
     = (obs,
        map (\<lambda>sub. OnPartialResult (sub_callback sub) (map_of fs ''value''))
          (filter (\<lambda>sub. token_equals (map_of fs ''token'') (sub_token sub)) obs))"
proof -
  have "List.map_filter (\<lambda>sub. fst (observer_next m sub)) obs = obs"
    by (induction obs) (simp_all add: List.map_filter_simps observer_next_progress [OF assms])
  moreover have "concat (map (\<lambda>sub. snd (observer_next m sub)) obs)
      = map (\<lambda>sub. OnPartialResult (sub_callback sub) (map_of fs ''value''))
          (filter (\<lambda>sub. token_equals (map_of fs ''token'') (sub_token sub)) obs)"
    by (induction obs) (simp_all add: observer_next_progress [OF assms])
  ultimately show ?thesis by (simp add: subject_next_def)
qed

lemma observer_next_no_receive:
  "x \<in> set (snd (observer_next m sub)) \<Longrightarrow> x \<noteq> Receive r"
  by (auto simp: observer_next_def split: option.splits json.splits if_splits)

lemma subject_next_no_receive:
  "x \<in> set (snd (subject_next obs m)) \<Longrightarrow> x \<noteq> Receive r"
  by (auto simp: subject_next_def dest: observer_next_no_receive)

lemma rpc_receive_shape:
  "rpcClient s = Some c \<Longrightarrow>
   \<exists>out. snd (rpc_receive s m) = Receive m # out \<and> (\<forall>x\<in>set out. \<forall>n. x \<noteq> SubjectNext n)"
  by (auto simp: rpc_receive_def split: option.splits prod.splits)


lemma mutate_ready:
  assumes "rpcClient s = Some c" and "webSocket s = Some socket"
  shows "rpcClient (fst (mutate s params cb))
           = Some (c\<lparr> last_id := last_id c + 1,
                      idToResolveMap := idToResolveMap c @ [(last_id c + 1, Mutate params cb)] \<rparr>)"
    and "observers (fst (mutate s params cb))
           = observers s @ [\<lparr> sub_token = partialResultToken params, sub_callback = cb \<rparr>]"
    and "\<exists>socket'. webSocket (fst (mutate s params cb)) = Some socket'"
  using assms
  by (cases "readyState socket = OPEN";
      simp add: mutate_def rpc_request_def
        send_adapter_open [where socket = socket] send_adapter_waiting [where socket = socket])+

lemma find_snoc_fresh:
  "\<forall>x\<in>set xs. \<not> P x \<Longrightarrow> P y \<Longrightarrow> find P (xs @ [y]) = Some y"
  by (induction xs) auto

lemma pending_call_fresh:
  assumes "\<forall>k\<in>fst ` set tbl. k \<le> n"
  shows "find (\<lambda>(k, cl). of_nat k = (of_nat (n + 1) :: rat)) (tbl @ [(n + 1, cl0)]) = Some (n + 1, cl0)"
proof (rule find_snoc_fresh)
  show "\<forall>x\<in>set tbl. \<not> (case x of (k, cl) \<Rightarrow> of_nat k = (of_nat (n + 1) :: rat))"
    using assms by force
  show "case (n + 1, cl0) of (k, cl) \<Rightarrow> of_nat k = (of_nat (n + 1) :: rat)"
    by simp
qed

subsection \<open>What keeps and what ends the subscriptions\<close>

lemma subject_next_keeps:
  assumes "\<not> (get_prop m ''method'' = Some (JStr ''progress'')
              \<and> (get_prop m ''params'' = None \<or> get_prop m ''params'' = Some JNull))"
  shows "fst (subject_next obs m) = obs"
proof -
  have "fst (observer_next m sub) = Some sub" for sub
    using assms by (auto simp: observer_next_def split: option.splits json.splits)
  then have "List.map_filter (\<lambda>sub. fst (observer_next m sub)) obs = obs"
    by (induction obs) (simp_all add: List.map_filter_simps)
  then show ?thesis by (simp add: subject_next_def)
qed

lemma subject_next_ends:
  assumes "get_prop m ''method'' = Some (JStr ''progress'')"
    and "get_prop m ''params'' = None \<or> get_prop m ''params'' = Some JNull"
  shows "fst (subject_next obs m) = []"
proof -
  have "fst (observer_next m sub) = None" for sub
    using assms by (auto simp: observer_next_def)
  then have "List.map_filter (\<lambda>sub. fst (observer_next m sub)) obs = []"
    by (induction obs) (simp_all add: List.map_filter_simps)
  then show ?thesis by (simp add: subject_next_def)
qed

lemma on_message_keeps_observers:
  assumes "\<not> ends_subscriptions p (SocketMessage d)"
  shows "observers (fst (on_message p s d)) = observers s"
proof (cases "p d")
  case None
  then show ?thesis by (simp add: on_message_def)
next
  case (Some m)
  show ?thesis
  proof (cases "truthy m \<and> \<not> truthy_opt (get_prop m ''id'')")
    case True
    then have "\<not> (get_prop m ''method'' = Some (JStr ''progress'')
              \<and> (get_prop m ''params'' = None \<or> get_prop m ''params'' = Some JNull))"
      using assms Some by simp
    from subject_next_keeps [OF this] show ?thesis
      using Some True by (simp add: on_message_def notification_next_def)
  next
    case False
    then show ?thesis using Some by (auto simp: on_message_def)
  qed
qed

lemma on_message_ends_observers:
  assumes "ends_subscriptions p (SocketMessage d)"
  shows "observers (fst (on_message p s d)) = []"
proof (cases "p d")
  case None
  then show ?thesis using assms by simp
next
  case (Some m)
  then have m: "truthy m" "\<not> truthy_opt (get_prop m ''id'')"
    "get_prop m ''method'' = Some (JStr ''progress'')"
    "get_prop m ''params'' = None \<or> get_prop m ''params'' = Some JNull"
    using assms by simp_all
  show ?thesis
    using Some m(1,2) subject_next_ends [OF m(3,4)]
    by (simp add: on_message_def notification_next_def)
qed

lemma on_open_observers [simp]:
  "observers (fst (on_open s)) = observers s"
proof (cases "webSocket s")
  case None
  then show ?thesis by (simp add: on_open_def)
next
  case (Some socket)
  then show ?thesis by (simp add: on_open_result)
qed

lemma step_keeps_observers:
  assumes "\<not> ends_subscriptions p e"
  shows "\<exists>new. observers (fst (step p s e)) = observers s @ new"
proof (cases e)
  case (StdoutData chunk)
  then show ?thesis by (simp add: on_stdout_data_def foldl_stdout_fields)
next
  case (SocketMessage d)
  then show ?thesis
    using assms on_message_keeps_observers [of p d s] by (cases "webSocket s") simp_all
next
  case (CallMutate params cb)
  then show ?thesis by (cases "rpcClient s") (simp_all add: mutate_def rpc_request_def)
next
  case (CallInstrument params)
  then show ?thesis by (cases "rpcClient s") (simp_all add: instrument_def rpc_request_def)
qed (simp_all add: on_exit_def on_stderr_data_def on_error_def on_close_def split: option.split)

lemma run_keeps_observers:
  assumes "\<forall>e\<in>set es. \<not> ends_subscriptions p e"
  shows "\<exists>new. observers (fst (run p s es)) = observers s @ new"
  using assms
proof (induction es arbitrary: s)
  case Nil
  then show ?case by simp
next
  case (Cons e es)
  obtain new1 where n1: "observers (fst (step p s e)) = observers s @ new1"
    using step_keeps_observers [of p e s] Cons.prems by auto
  obtain new2 where "observers (fst (run p (fst (step p s e)) es))
      = observers (fst (step p s e)) @ new2"
    using Cons.IH [of "fst (step p s e)"] Cons.prems by auto
  then have "observers (fst (run p s (e # es))) = observers s @ (new1 @ new2)"
    using n1 by simp
  then show ?case by blast
qed

subsection \<open>The port promise\<close>

lemma on_open_fields [simp]:
  "port_promise (fst (on_open s)) = port_promise s
   \<and> stdout_listeners (fst (on_open s)) = stdout_listeners s"
proof (cases "webSocket s")
  case None
  then show ?thesis by (simp add: on_open_def)
next
  case (Some socket)
  then show ?thesis by (simp add: on_open_result)
qed

lemma mutate_fields [simp]:
  "port_promise (fst (mutate s params cb)) = port_promise s"
  "stdout_listeners (fst (mutate s params cb)) = stdout_listeners s"
  by (simp_all add: mutate_def rpc_request_def split: option.split)

lemma instrument_fields [simp]:
  "port_promise (fst (instrument s params)) = port_promise s"
  "stdout_listeners (fst (instrument s params)) = stdout_listeners s"
  by (simp_all add: instrument_def rpc_request_def split: option.split)

lemma on_error_close_fields [simp]:
  "port_promise (fst (on_error s err)) = port_promise s"
  "stdout_listeners (fst (on_error s err)) = stdout_listeners s"
  "port_promise (fst (on_close s)) = port_promise s"
  "stdout_listeners (fst (on_close s)) = stdout_listeners s"
  by (simp_all add: on_error_def on_close_def split: option.split)

lemma foldl_stdout_no_banner:
  "banner_exec chunk = None \<Longrightarrow>
   fst (foldl (stdout_listener_call chunk) acc ls) = fst acc"
proof (induction ls arbitrary: acc)
  case Nil
  then show ?case by simp
next
  case (Cons l ls)
  have "fst (stdout_listener_call chunk acc l) = fst acc"
    using Cons.prems by (cases acc; cases l) simp_all
  then show ?case using Cons by simp
qed

lemma foldl_stdout_resolves:
  assumes "banner_exec chunk = Some ds" and "port_promise (fst acc) = Pending"
    and "ScanPort \<in> set ls"
  shows "port_promise (fst (foldl (stdout_listener_call chunk) acc ls)) = Fulfilled (parseInt ds)"
  using assms(2,3)
proof (induction ls arbitrary: acc)
  case Nil
  then show ?case by simp
next
  case (Cons l ls)
  show ?case
  proof (cases l)
    case LogStdout
    then have "port_promise (fst (stdout_listener_call chunk acc l)) = Pending"
      using Cons.prems(1) by (cases acc) simp
    moreover have "ScanPort \<in> set ls" using Cons.prems(2) LogStdout by simp
    ultimately show ?thesis using Cons.IH by simp
  next
    case ScanPort
    then have now: "port_promise (fst (stdout_listener_call chunk acc l)) = Fulfilled (parseInt ds)"
      using Cons.prems(1) assms(1) by (cases acc) (simp add: resolve_def)
    then have "port_promise (fst (stdout_listener_call chunk acc l)) \<noteq> Pending" by simp
    from foldl_stdout_settled [OF this, of chunk ls] now show ?thesis by simp
  qed
qed

lemma foldl_stdout_rescans:
  assumes "banner_exec chunk = Some ds" and "ScanPort \<in> set ls"
  shows "ResolvePort (parseInt ds) \<in> set (snd (foldl (stdout_listener_call chunk) acc ls))"
  using assms(2)
proof (induction ls arbitrary: acc)
  case Nil
  then show ?case by simp
next
  case (Cons l ls)
  show ?case
  proof (cases l)
    case LogStdout
    then show ?thesis using Cons by simp
  next
    case ScanPort
    then have "ResolvePort (parseInt ds) \<in> set (snd (stdout_listener_call chunk acc l))"
      using assms(1) by (cases acc) (simp split: promise.split)
    moreover obtain new where
      "snd (foldl (stdout_listener_call chunk) (stdout_listener_call chunk acc l) ls)
         = snd (stdout_listener_call chunk acc l) @ new"
      using foldl_stdout_effects by blast
    ultimately show ?thesis by simp
  qed
qed

lemma step_stdout_listeners:
  "stdout_listeners (fst (step p s e)) = stdout_listeners s"
  by (cases e)
     (simp_all add: on_exit_def on_stderr_data_def on_stdout_data_def
        foldl_stdout_fields split: option.split)

lemma step_port_promise_quiet:
  "\<not> is_stdout_banner e \<Longrightarrow> port_promise (fst (step p s e)) = port_promise s"
  by (cases e)
     (simp_all add: on_exit_def on_stderr_data_def on_stdout_data_def
        foldl_stdout_no_banner split: option.split)

lemma step_port_promise_settled:
  "port_promise s \<noteq> Pending \<Longrightarrow> port_promise (fst (step p s e)) = port_promise s"
  using foldl_stdout_settled [of "(s, [])" _ "stdout_listeners s"]
  by (cases e)
     (simp_all add: on_exit_def on_stderr_data_def on_stdout_data_def split: option.split)

lemma step_port_promise_not_rejected:
  "(\<forall>e. port_promise s \<noteq> Rejected e) \<Longrightarrow> port_promise (fst (step p s ev)) \<noteq> Rejected e'"
  using foldl_stdout_not_rejected [of "(s, [])" _ "stdout_listeners s" e']
  by (cases ev)
     (simp_all add: on_exit_def on_stderr_data_def on_stdout_data_def split: option.split)

lemma run_stdout_listeners:
  "stdout_listeners (fst (run p s es)) = stdout_listeners s"
  by (induction es arbitrary: s) (simp_all add: step_stdout_listeners)

lemma run_port_promise_quiet:
  "\<forall>e\<in>set es. \<not> is_stdout_banner e \<Longrightarrow> port_promise (fst (run p s es)) = port_promise s"
  by (induction es arbitrary: s) (simp_all add: step_port_promise_quiet)

lemma run_port_promise_settled:
  "port_promise s \<noteq> Pending \<Longrightarrow> port_promise (fst (run p s es)) = port_promise s"
  by (induction es arbitrary: s) (simp_all add: step_port_promise_settled)

lemma run_port_promise_not_rejected:
  "(\<forall>e. port_promise s \<noteq> Rejected e) \<Longrightarrow> port_promise (fst (run p s es)) \<noteq> Rejected e'"
proof (induction es arbitrary: s)
  case Nil
  then show ?case by simp
next
  case (Cons ev es)
  have "\<forall>e. port_promise (fst (step p s ev)) \<noteq> Rejected e"
    using Cons.prems step_port_promise_not_rejected by blast
  then show ?case using Cons.IH by simp
qed

lemma run_append:
  "run p s (es @ es')
     = (fst (run p (fst (run p s es)) es'), snd (run p s es) @ snd (run p (fst (run p s es)) es'))"
  by (induction es arbitrary: s) simp_all

subsection \<open>Decimal digits\<close>

lemma digit_char:
  "d < 10 \<Longrightarrow> of_char (''0123456789'' ! d) = 48 + d \<and> is_digit (''0123456789'' ! d)"
proof -
  assume "d < 10"
  then have "d \<in> {0, 1, 2, 3, 4, 5, 6, 7, 8, 9}" by auto
  then show ?thesis by (auto simp: is_digit_def)
qed

lemma decimal_snoc:
  "decimal (ds @ [c]) = 10 * decimal ds + (of_char c - 48)"
  by (simp add: decimal_def)

lemma decimal_string_of_nat:
  "decimal (string_of_nat n) = n"
proof (induction n rule: string_of_nat.induct)
  case (1 n)
  show ?case
  proof (cases "n < 10")
    case True
    then show ?thesis
      using digit_char [of n] by (subst string_of_nat.simps) (simp add: decimal_def)
  next
    case False
    have "n mod 10 < 10" by simp
    then have "of_char (''0123456789'' ! (n mod 10)) - 48 = n mod 10"
      using digit_char [of "n mod 10"] by simp
    then show ?thesis
      using False "1.IH"
      by (subst string_of_nat.simps) (simp add: decimal_snoc)
  qed
qed

lemma parseInt_string_of_nat:
  "parseInt (string_of_nat n) = (if n \<le> 2 ^ 53 then Integer n else Inexact (string_of_nat n))"
  by (simp add: parseInt_def decimal_string_of_nat)

lemma string_of_nat_digits:
  "string_of_nat n \<noteq> [] \<and> (\<forall>c\<in>set (string_of_nat n). is_digit c)"
proof (induction n rule: string_of_nat.induct)
  case (1 n)
  show ?case
  proof (cases "n < 10")
    case True
    then show ?thesis using digit_char [of n] by (subst (1 2) string_of_nat.simps) simp
  next
    case False
    have "is_digit (''0123456789'' ! (n mod 10))"
      using digit_char [of "n mod 10"] by simp
    then show ?thesis
      using False "1.IH"
      by (subst (1 2) string_of_nat.simps) simp
  qed
qed

lemma banner_exec_prefix:
  assumes "take (length banner) xs = banner"
    and "takeWhile is_digit (drop (length banner) xs) \<noteq> []"
  shows "banner_exec xs = Some (takeWhile is_digit (drop (length banner) xs))"
proof (cases xs)
  case Nil
  then show ?thesis using assms(1) by (simp add: banner_def)
next
  case (Cons c cs)
  then show ?thesis using assms by (simp add: Let_def)
qed

lemma banner_exec_decimal:
  "banner_exec (banner @ string_of_nat n) = Some (string_of_nat n)"
proof -
  have all: "takeWhile is_digit (string_of_nat n) = string_of_nat n"
    using string_of_nat_digits [of n] by (simp add: takeWhile_eq_all_conv)
  have "takeWhile is_digit (drop (length banner) (banner @ string_of_nat n)) \<noteq> []"
    using string_of_nat_digits [of n] by (simp add: all)
  from banner_exec_prefix [OF _ this] show ?thesis
    by (simp add: all)
qed

subsection \<open>Instances that \<open>create\<close> and the events can produce\<close>

text \<open>
  The socket and the RPC client are assigned in the same block of \<open>connect\<close>, after the
  port has arrived: an instance has both or neither, and with them the port promise is
  settled. Every event keeps this, so the hypotheses of the statements below that ask for
  a client next to the socket and for a settled port promise hold in every execution that
  starts from \<open>create\<close>.
\<close>

lemma connect_resume_connected:
  assumes "webSocket s = None" and "rpcClient s = None" and "port_promise s \<noteq> Pending"
  shows "(webSocket (fst (connect_resume s port)) = None
          \<and> rpcClient (fst (connect_resume s port)) = None)
         \<or> (webSocket (fst (connect_resume s port)) \<noteq> None
             \<and> rpcClient (fst (connect_resume s port)) \<noteq> None
             \<and> port_promise (fst (connect_resume s port)) \<noteq> Pending)"
  using assms connect_resume_cases [of s port] by auto

lemma stdout_listener_call_connected:
  assumes "(webSocket (fst acc) = None \<and> rpcClient (fst acc) = None)
           \<or> (webSocket (fst acc) \<noteq> None \<and> rpcClient (fst acc) \<noteq> None
               \<and> port_promise (fst acc) \<noteq> Pending)"
  shows "(webSocket (fst (stdout_listener_call chunk acc l)) = None
          \<and> rpcClient (fst (stdout_listener_call chunk acc l)) = None)
         \<or> (webSocket (fst (stdout_listener_call chunk acc l)) \<noteq> None
             \<and> rpcClient (fst (stdout_listener_call chunk acc l)) \<noteq> None
             \<and> port_promise (fst (stdout_listener_call chunk acc l)) \<noteq> Pending)"
proof (cases acc)
  case (Pair s out)
  show ?thesis
  proof (cases l)
    case LogStdout
    then show ?thesis using assms Pair by simp
  next
    case ScanPort
    show ?thesis
    proof (cases "banner_exec chunk")
      case None
      then show ?thesis using assms Pair ScanPort by simp
    next
      case (Some ds)
      show ?thesis
      proof (cases "port_promise s = Pending")
        case True
        then have "webSocket s = None" "rpcClient s = None"
          using assms Pair by auto
        then have "webSocket (s\<lparr> port_promise := Fulfilled (parseInt ds) \<rparr>) = None"
          "rpcClient (s\<lparr> port_promise := Fulfilled (parseInt ds) \<rparr>) = None"
          "port_promise (s\<lparr> port_promise := Fulfilled (parseInt ds) \<rparr>) \<noteq> Pending"
          by simp_all
        from connect_resume_connected [OF this, of "parseInt ds"] show ?thesis
          using Pair ScanPort Some True by (simp add: resolve_def)
      next
        case False
        then show ?thesis
          using assms Pair ScanPort Some
          by (cases "port_promise s") (simp_all add: resolve_def)
      qed
    qed
  qed
qed

lemma foldl_stdout_connected:
  assumes "(webSocket (fst acc) = None \<and> rpcClient (fst acc) = None)
           \<or> (webSocket (fst acc) \<noteq> None \<and> rpcClient (fst acc) \<noteq> None
               \<and> port_promise (fst acc) \<noteq> Pending)"
  shows "(webSocket (fst (foldl (stdout_listener_call chunk) acc ls)) = None
          \<and> rpcClient (fst (foldl (stdout_listener_call chunk) acc ls)) = None)
         \<or> (webSocket (fst (foldl (stdout_listener_call chunk) acc ls)) \<noteq> None
             \<and> rpcClient (fst (foldl (stdout_listener_call chunk) acc ls)) \<noteq> None
             \<and> port_promise (fst (foldl (stdout_listener_call chunk) acc ls)) \<noteq> Pending)"
  using assms
proof (induction ls arbitrary: acc)
  case Nil
  then show ?case by simp
next
  case (Cons l ls)
  from Cons.IH [OF stdout_listener_call_connected [OF Cons.prems]] show ?case by simp
qed

lemma send_adapter_connected:
  "webSocket s \<noteq> None \<Longrightarrow> rpcClient s \<noteq> None \<Longrightarrow>
   webSocket (fst (send_adapter s r)) \<noteq> None \<and> rpcClient (fst (send_adapter s r)) \<noteq> None"
  by (auto simp: send_adapter_def waitForOpenSocket_def socket_send_def send_failed_def
      split: option.splits if_splits)

lemma step_connected:
  assumes "(webSocket s = None \<and> rpcClient s = None)
           \<or> (webSocket s \<noteq> None \<and> rpcClient s \<noteq> None \<and> port_promise s \<noteq> Pending)"
  shows "(webSocket (fst (step p s e)) = None \<and> rpcClient (fst (step p s e)) = None)
         \<or> (webSocket (fst (step p s e)) \<noteq> None \<and> rpcClient (fst (step p s e)) \<noteq> None
             \<and> port_promise (fst (step p s e)) \<noteq> Pending)"
proof (cases e)
  case (StdoutData chunk)
  then show ?thesis
    using foldl_stdout_connected [of "(s, [])" chunk "stdout_listeners s"] assms
    by (simp add: on_stdout_data_def)
next
  case SocketOpen
  show ?thesis
  proof (cases "webSocket s")
    case None
    then show ?thesis using SocketOpen assms by (simp add: on_open_def)
  next
    case (Some socket)
    then show ?thesis using SocketOpen assms by (simp add: on_open_result)
  qed
next
  case (SocketMessage d)
  then show ?thesis
    using assms rpc_client_kept(4) [of s p d]
    by (cases "webSocket s") (auto simp: on_message_def split: option.splits)
next
  case (CallMutate params cb)
  then show ?thesis
    using assms
      send_adapter_connected [of "s\<lparr> observers := observers s @
              [\<lparr> sub_token = partialResultToken params, sub_callback = cb \<rparr>],
            rpcClient := Some (c\<lparr> last_id := last_id c + 1,
              idToResolveMap := idToResolveMap c @ [(last_id c + 1, Mutate params cb)] \<rparr>) \<rparr>" for c]
    by (cases "rpcClient s") (auto simp: mutate_def rpc_request_def)
next
  case (CallInstrument params)
  then show ?thesis
    using assms
      send_adapter_connected [of "s\<lparr> rpcClient := Some (c\<lparr> last_id := last_id c + 1,
              idToResolveMap := idToResolveMap c @ [(last_id c + 1, Instrument params)] \<rparr>) \<rparr>" for c]
    by (cases "rpcClient s") (auto simp: instrument_def rpc_request_def)
qed (use assms in \<open>auto simp: on_exit_def on_stderr_data_def on_error_def on_close_def
       split: option.splits\<close>)

lemma run_connected:
  assumes "(webSocket s = None \<and> rpcClient s = None)
           \<or> (webSocket s \<noteq> None \<and> rpcClient s \<noteq> None \<and> port_promise s \<noteq> Pending)"
  shows "(webSocket (fst (run p s es)) = None \<and> rpcClient (fst (run p s es)) = None)
         \<or> (webSocket (fst (run p s es)) \<noteq> None \<and> rpcClient (fst (run p s es)) \<noteq> None
             \<and> port_promise (fst (run p s es)) \<noteq> Pending)"
  using assms
proof (induction es arbitrary: s)
  case Nil
  then show ?case by simp
next
  case (Cons e es)
  from Cons.IH [OF step_connected [OF Cons.prems]] show ?case by simp
qed

lemma create_not_connected:
  "create env = (Inr s, out) \<Longrightarrow> webSocket s = None \<and> rpcClient s = None"
  by (auto simp: create_def MutationServer_new_def waitForMutationServerStarted_def Let_def
      split: option.splits if_splits sum.splits)

lemma created_run_connected:
  assumes "create env = (Inr s, out)"
  shows "(webSocket (fst (run p s es)) = None \<and> rpcClient (fst (run p s es)) = None)
         \<or> (webSocket (fst (run p s es)) \<noteq> None \<and> rpcClient (fst (run p s es)) \<noteq> None
             \<and> port_promise (fst (run p s es)) \<noteq> Pending)"
  using run_connected [of s p es] create_not_connected [OF assms] by simp

subsection \<open>The concrete instance is one of them\<close>

lemma example_create: "create example_env = (Inr example_created, [])"
  by (simp add: create_def MutationServer_new_def example_env_def example_created_def
      port_args_def first_workspace_folder_def waitForMutationServerStarted_def)

lemma example_banner:
  "step JSON_parse example_created (StdoutData ''Server is listening on port: 8080'')
   = (example_connected,
      [LogInfo (ProcessOutput ''Server is listening on port: 8080''),
       ResolvePort (Integer 8080)])"
  by (simp add: on_stdout_data_def example_created_def example_connected_def banner_def
      is_digit_def parseInt_def decimal_def resolve_def connect_resume_def
      connectViaWebSocket_def)

lemma example_open: "step JSON_parse example_connected SocketOpen = (example_ready, [])"
  by (simp add: on_open_def example_connected_def example_ready_def example_created_def)

section \<open>The claims\<close>

subsection \<open>Inbound frames\<close>

text \<open>
  Claim C1, as the code has it. A frame that parses to a truthy value is classified by
  the truthiness of its \<open>id\<close>: with no \<open>id\<close> field it goes to the notification subject
  first and nothing of it reaches the RPC client's \<open>receive\<close>; with an \<open>id\<close> that is
  truthy (not \<open>null\<close>, \<open>false\<close>, \<open>0\<close> or the empty string) it goes to \<open>receive\<close> first and
  nothing of it reaches the subject. A frame that parses to a falsy value (\<open>null\<close>,
  \<open>false\<close>, \<open>0\<close>, the empty string) is delivered to neither.
\<close>

theorem classified_by_truthy_id:
  "JSON_parse data = Some m \<and> rpcClient s = Some c \<longrightarrow>
     (truthy m \<and> get_prop m ''id'' = None \<longrightarrow>
        (\<exists>out. snd (on_message JSON_parse s data) = SubjectNext m # out
               \<and> (\<forall>x\<in>set out. \<forall>r. x \<noteq> Receive r)))
     \<and> (truthy m \<and> truthy_opt (get_prop m ''id'') \<longrightarrow>
        (\<exists>out. snd (on_message JSON_parse s data) = Receive m # out
               \<and> (\<forall>x\<in>set out. \<forall>n. x \<noteq> SubjectNext n)))
     \<and> (\<not> truthy m \<longrightarrow> on_message JSON_parse s data = (s, []))"
proof (intro impI conjI)
  assume a: "JSON_parse data = Some m \<and> rpcClient s = Some c"
    and b: "truthy m \<and> get_prop m ''id'' = None"
  have "snd (on_message JSON_parse s data) = SubjectNext m # snd (subject_next (observers s) m)"
    using a b by (simp add: on_message_def truthy_opt_def notification_next_def)
  then show "\<exists>out. snd (on_message JSON_parse s data) = SubjectNext m # out
               \<and> (\<forall>x\<in>set out. \<forall>r. x \<noteq> Receive r)"
    using subject_next_no_receive by blast
next
  assume a: "JSON_parse data = Some m \<and> rpcClient s = Some c"
    and b: "truthy m \<and> truthy_opt (get_prop m ''id'')"
  have "snd (on_message JSON_parse s data) = snd (rpc_receive s m)"
    using a b by (simp add: on_message_def)
  then show "\<exists>out. snd (on_message JSON_parse s data) = Receive m # out
               \<and> (\<forall>x\<in>set out. \<forall>n. x \<noteq> SubjectNext n)"
    using rpc_receive_shape [of s c m] a by simp
next
  assume "JSON_parse data = Some m \<and> rpcClient s = Some c" and "\<not> truthy m"
  then show "on_message JSON_parse s data = (s, [])"
    by (simp add: on_message_def)
qed

theorem classified_by_truthy_id_witness:
  \<open>example_parse ''{"id":1,"result":[]}'' = Some (JObj [(''id'', JNum 1), (''result'', JArr [])])
   \<and> truthy_opt (get_prop (JObj [(''id'', JNum 1), (''result'', JArr [])]) ''id'')
   \<and> (\<exists>out. snd (on_message example_parse example_ready ''{"id":1,"result":[]}'')
               = Receive (JObj [(''id'', JNum 1), (''result'', JArr [])]) # out
             \<and> list_all (\<lambda>x. \<forall>n. x \<noteq> SubjectNext n) out)
   \<and> example_parse ''{"method":"progress","params":{"token":"t1","value":42}}''
       = Some (JObj [(''method'', JStr ''progress''),
                     (''params'', JObj [(''token'', JStr ''t1''), (''value'', JNum 42)])])
   \<and> (\<exists>out. snd (on_message example_parse example_ready
                     ''{"method":"progress","params":{"token":"t1","value":42}}'')
               = SubjectNext (JObj [(''method'', JStr ''progress''),
                     (''params'', JObj [(''token'', JStr ''t1''), (''value'', JNum 42)])]) # out
             \<and> list_all (\<lambda>x. \<forall>r. x \<noteq> Receive r) out)
   \<and> example_parse ''null'' = Some JNull
   \<and> on_message example_parse example_ready ''null'' = (example_ready, [])\<close>
proof -
  have h: \<open>example_parse ''{"id":1,"result":[]}'' = Some (JObj [(''id'', JNum 1), (''result'', JArr [])])
      \<and> truthy (JObj [(''id'', JNum 1), (''result'', JArr [])])
      \<and> truthy_opt (get_prop (JObj [(''id'', JNum 1), (''result'', JArr [])]) ''id'')
      \<and> example_parse ''{"method":"progress","params":{"token":"t1","value":42}}''
          = Some (JObj [(''method'', JStr ''progress''),
                        (''params'', JObj [(''token'', JStr ''t1''), (''value'', JNum 42)])])
      \<and> truthy (JObj [(''method'', JStr ''progress''),
                        (''params'', JObj [(''token'', JStr ''t1''), (''value'', JNum 42)])])
      \<and> get_prop (JObj [(''method'', JStr ''progress''),
                        (''params'', JObj [(''token'', JStr ''t1''), (''value'', JNum 42)])]) ''id'' = None
      \<and> example_parse ''null'' = Some JNull \<and> \<not> truthy JNull
      \<and> rpcClient example_ready = Some \<lparr> last_id = 0, idToResolveMap = [] \<rparr>\<close>
    by (simp add: example_parse_def truthy_opt_def example_ready_def example_connected_def
        example_created_def)
  show ?thesis
    unfolding list_all_iff
    using h
      classified_by_truthy_id [where JSON_parse = example_parse and s = example_ready
        and data = \<open>''{"id":1,"result":[]}''\<close>
        and m = \<open>JObj [(''id'', JNum 1), (''result'', JArr [])]\<close>
        and c = \<open>\<lparr> last_id = 0, idToResolveMap = [] \<rparr>\<close>]
      classified_by_truthy_id [where JSON_parse = example_parse and s = example_ready
        and data = \<open>''{"method":"progress","params":{"token":"t1","value":42}}''\<close>
        and m = \<open>JObj [(''method'', JStr ''progress''),
                        (''params'', JObj [(''token'', JStr ''t1''), (''value'', JNum 42)])]\<close>
        and c = \<open>\<lparr> last_id = 0, idToResolveMap = [] \<rparr>\<close>]
      classified_by_truthy_id [where JSON_parse = example_parse and s = example_ready
        and data = \<open>''null''\<close> and m = JNull
        and c = \<open>\<lparr> last_id = 0, idToResolveMap = [] \<rparr>\<close>]
    by blast
qed

text \<open>
  The claim as written, with the presence of the field as the only discriminant, fails on
  a frame with \<open>id\<close> 0, which has the field and goes to the subject, and on the frame
  \<open>null\<close>, which parses, has no \<open>id\<close> and reaches nobody.
\<close>

theorem classified_by_presence_counterexample:
  \<open>example_parse ''{"id":0,"result":[]}'' = Some (JObj [(''id'', JNum 0), (''result'', JArr [])])
   \<and> get_prop (JObj [(''id'', JNum 0), (''result'', JArr [])]) ''id'' = Some (JNum 0)
   \<and> on_message example_parse example_ready ''{"id":0,"result":[]}''
       = (example_ready, [SubjectNext (JObj [(''id'', JNum 0), (''result'', JArr [])])])
   \<and> example_parse ''null'' = Some JNull
   \<and> get_prop JNull ''id'' = None
   \<and> on_message example_parse example_ready ''null'' = (example_ready, [])\<close>
  by (simp add: example_parse_def on_message_def truthy_opt_def notification_next_def
      subject_next_def List.map_filter_simps example_ready_def example_connected_def
      example_created_def)

text \<open>
  Claim C7. A frame that \<open>JSON.parse\<close> rejects is logged as a parse error and dropped:
  the handler changes nothing in the instance, nothing escapes it as an exception, the
  socket is kept, and the events that follow are handled exactly as they would have been
  without the malformed one. In particular the well-formed frame that follows it is
  classified and dispatched: with no \<open>id\<close> it is handed to the notification subject, and
  a progress notification among these invokes the callbacks subscribed for its token; with
  a truthy \<open>id\<close> it is handed to the RPC client's \<open>receive\<close>.
\<close>

theorem malformed_frame_logged_and_dropped:
  "JSON_parse data = None \<longrightarrow>
     on_message JSON_parse s data = (s, [LogError (ErrorParsingJSON data)])
     \<and> (\<forall>x\<in>set (snd (step JSON_parse s (SocketMessage data))). \<forall>e. x \<noteq> Uncaught e)
     \<and> webSocket (fst (step JSON_parse s (SocketMessage data))) = webSocket s
     \<and> (webSocket s \<noteq> None \<longrightarrow>
          step JSON_parse s (SocketMessage data) = (s, [LogError (ErrorParsingJSON data)])
          \<and> run JSON_parse s (SocketMessage data # es)
              = (fst (run JSON_parse s es),
                 LogError (ErrorParsingJSON data) # snd (run JSON_parse s es)))
     \<and> (webSocket s \<noteq> None \<and> rpcClient s = Some c \<and> JSON_parse good = Some m \<and> truthy m \<longrightarrow>
          (get_prop m ''id'' = None \<longrightarrow>
             (\<exists>out. snd (run JSON_parse s [SocketMessage data, SocketMessage good])
                      = LogError (ErrorParsingJSON data) # SubjectNext m # out))
          \<and> (truthy_opt (get_prop m ''id'') \<longrightarrow>
             (\<exists>out. snd (run JSON_parse s [SocketMessage data, SocketMessage good])
                      = LogError (ErrorParsingJSON data) # Receive m # out))
          \<and> (\<not> truthy_opt (get_prop m ''id'')
              \<and> get_prop m ''method'' = Some (JStr ''progress'')
              \<and> get_prop m ''params'' = Some (JObj fs) \<longrightarrow>
             snd (run JSON_parse s [SocketMessage data, SocketMessage good])
               = LogError (ErrorParsingJSON data) # SubjectNext m
                 # map (\<lambda>sub. OnPartialResult (sub_callback sub) (map_of fs ''value''))
                     (filter (\<lambda>sub. token_equals (map_of fs ''token'') (sub_token sub))
                        (observers s))))"
proof (intro impI)
  assume bad: "JSON_parse data = None"
  have drop: "on_message JSON_parse s data = (s, [LogError (ErrorParsingJSON data)])"
    using bad by (simp add: on_message_def)
  have quiet: "\<forall>x\<in>set (snd (step JSON_parse s (SocketMessage data))). \<forall>e. x \<noteq> Uncaught e"
    using drop by (cases "webSocket s") simp_all
  have kept: "webSocket (fst (step JSON_parse s (SocketMessage data))) = webSocket s"
    using drop by (cases "webSocket s") simp_all
  have later: "step JSON_parse s (SocketMessage data) = (s, [LogError (ErrorParsingJSON data)])
          \<and> run JSON_parse s (SocketMessage data # es)
              = (fst (run JSON_parse s es),
                 LogError (ErrorParsingJSON data) # snd (run JSON_parse s es))"
    if "webSocket s \<noteq> None"
    using that drop by (cases "webSocket s") simp_all
  have next_frame: "(get_prop m ''id'' = None \<longrightarrow>
             (\<exists>out. snd (run JSON_parse s [SocketMessage data, SocketMessage good])
                      = LogError (ErrorParsingJSON data) # SubjectNext m # out))
          \<and> (truthy_opt (get_prop m ''id'') \<longrightarrow>
             (\<exists>out. snd (run JSON_parse s [SocketMessage data, SocketMessage good])
                      = LogError (ErrorParsingJSON data) # Receive m # out))
          \<and> (\<not> truthy_opt (get_prop m ''id'')
              \<and> get_prop m ''method'' = Some (JStr ''progress'')
              \<and> get_prop m ''params'' = Some (JObj fs) \<longrightarrow>
             snd (run JSON_parse s [SocketMessage data, SocketMessage good])
               = LogError (ErrorParsingJSON data) # SubjectNext m
                 # map (\<lambda>sub. OnPartialResult (sub_callback sub) (map_of fs ''value''))
                     (filter (\<lambda>sub. token_equals (map_of fs ''token'') (sub_token sub))
                        (observers s)))"
    if a: "webSocket s \<noteq> None \<and> rpcClient s = Some c \<and> JSON_parse good = Some m \<and> truthy m"
  proof -
    have two: "snd (run JSON_parse s [SocketMessage data, SocketMessage good])
        = LogError (ErrorParsingJSON data) # snd (on_message JSON_parse s good)"
      using a drop by (cases "webSocket s") simp_all
    have note_: "snd (on_message JSON_parse s good) = SubjectNext m # snd (subject_next (observers s) m)"
      if "\<not> truthy_opt (get_prop m ''id'')"
      using a that by (simp add: on_message_def notification_next_def)
    have resp: "\<exists>out. snd (on_message JSON_parse s good) = Receive m # out"
      if "truthy_opt (get_prop m ''id'')"
      using a that rpc_receive_shape [of s c m] by (auto simp: on_message_def)
    have none_falsy: "\<not> truthy_opt (get_prop m ''id'')" if "get_prop m ''id'' = None"
      using that by (simp add: truthy_opt_def)
    show ?thesis
      using two note_ resp none_falsy subject_next_progress [of m fs "observers s"]
      by auto
  qed
  show "on_message JSON_parse s data = (s, [LogError (ErrorParsingJSON data)])
     \<and> (\<forall>x\<in>set (snd (step JSON_parse s (SocketMessage data))). \<forall>e. x \<noteq> Uncaught e)
     \<and> webSocket (fst (step JSON_parse s (SocketMessage data))) = webSocket s
     \<and> (webSocket s \<noteq> None \<longrightarrow>
          step JSON_parse s (SocketMessage data) = (s, [LogError (ErrorParsingJSON data)])
          \<and> run JSON_parse s (SocketMessage data # es)
              = (fst (run JSON_parse s es),
                 LogError (ErrorParsingJSON data) # snd (run JSON_parse s es)))
     \<and> (webSocket s \<noteq> None \<and> rpcClient s = Some c \<and> JSON_parse good = Some m \<and> truthy m \<longrightarrow>
          (get_prop m ''id'' = None \<longrightarrow>
             (\<exists>out. snd (run JSON_parse s [SocketMessage data, SocketMessage good])
                      = LogError (ErrorParsingJSON data) # SubjectNext m # out))
          \<and> (truthy_opt (get_prop m ''id'') \<longrightarrow>
             (\<exists>out. snd (run JSON_parse s [SocketMessage data, SocketMessage good])
                      = LogError (ErrorParsingJSON data) # Receive m # out))
          \<and> (\<not> truthy_opt (get_prop m ''id'')
              \<and> get_prop m ''method'' = Some (JStr ''progress'')
              \<and> get_prop m ''params'' = Some (JObj fs) \<longrightarrow>
             snd (run JSON_parse s [SocketMessage data, SocketMessage good])
               = LogError (ErrorParsingJSON data) # SubjectNext m
                 # map (\<lambda>sub. OnPartialResult (sub_callback sub) (map_of fs ''value''))
                     (filter (\<lambda>sub. token_equals (map_of fs ''token'') (sub_token sub))
                        (observers s))))"
    using drop quiet kept later next_frame by blast
qed

theorem malformed_frame_logged_and_dropped_witness:
  \<open>example_parse ''{"id":1,"resu'' = None
   \<and> step example_parse (fst (mutate example_ready (example_params ''t1'') 7))
         (SocketMessage ''{"id":1,"resu'')
       = (fst (mutate example_ready (example_params ''t1'') 7),
          [LogError (ErrorParsingJSON ''{"id":1,"resu'')])
   \<and> (\<exists>out. snd (run example_parse (fst (mutate example_ready (example_params ''t1'') 7))
                    [SocketMessage ''{"id":1,"resu'', SocketMessage ''{"id":1,"result":[]}''])
              = LogError (ErrorParsingJSON ''{"id":1,"resu'')
                # Receive (JObj [(''id'', JNum 1), (''result'', JArr [])]) # out)
   \<and> snd (run example_parse (fst (mutate example_ready (example_params ''t1'') 7))
            [SocketMessage ''{"id":1,"resu'',
             SocketMessage ''{"method":"progress","params":{"token":"t1","value":42}}''])
       = [LogError (ErrorParsingJSON ''{"id":1,"resu''),
          SubjectNext (JObj [(''method'', JStr ''progress''),
                             (''params'', JObj [(''token'', JStr ''t1''), (''value'', JNum 42)])]),
          OnPartialResult 7 (Some (JNum 42))]\<close>
proof -
  define one where "one = fst (mutate example_ready (example_params ''t1'') 7)"
  have one: \<open>webSocket one \<noteq> None
      \<and> rpcClient one
          = Some \<lparr> last_id = 1, idToResolveMap = [(1, Mutate (example_params ''t1'') 7)] \<rparr>
      \<and> observers one = [\<lparr> sub_token = TokenString ''t1'', sub_callback = 7 \<rparr>]\<close>
    by (simp add: one_def example_ready_def example_connected_def example_created_def
        example_params_def mutate_def rpc_request_def send_adapter_def
        waitForOpenSocket_def socket_send_def)
  have frames: \<open>example_parse ''{"id":1,"resu'' = None
      \<and> example_parse ''{"id":1,"result":[]}'' = Some (JObj [(''id'', JNum 1), (''result'', JArr [])])
      \<and> example_parse ''{"method":"progress","params":{"token":"t1","value":42}}''
          = Some (JObj [(''method'', JStr ''progress''),
                        (''params'', JObj [(''token'', JStr ''t1''), (''value'', JNum 42)])])\<close>
    by (simp add: example_parse_def)
  have props: \<open>truthy (JObj [(''id'', JNum 1), (''result'', JArr [])])
      \<and> truthy_opt (get_prop (JObj [(''id'', JNum 1), (''result'', JArr [])]) ''id'')
      \<and> truthy (JObj [(''method'', JStr ''progress''),
                        (''params'', JObj [(''token'', JStr ''t1''), (''value'', JNum 42)])])
      \<and> \<not> truthy_opt (get_prop (JObj [(''method'', JStr ''progress''),
                        (''params'', JObj [(''token'', JStr ''t1''), (''value'', JNum 42)])]) ''id'')
      \<and> get_prop (JObj [(''method'', JStr ''progress''),
                        (''params'', JObj [(''token'', JStr ''t1''), (''value'', JNum 42)])]) ''method''
          = Some (JStr ''progress'')
      \<and> get_prop (JObj [(''method'', JStr ''progress''),
                        (''params'', JObj [(''token'', JStr ''t1''), (''value'', JNum 42)])]) ''params''
          = Some (JObj [(''token'', JStr ''t1''), (''value'', JNum 42)])\<close>
    by (simp add: truthy_opt_def)
  have dropped: \<open>step example_parse one (SocketMessage ''{"id":1,"resu'')
       = (one, [LogError (ErrorParsingJSON ''{"id":1,"resu'')])\<close>
    using one frames
      malformed_frame_logged_and_dropped [where JSON_parse = example_parse
        and data = \<open>''{"id":1,"resu''\<close> and s = one]
    by blast
  have response: \<open>\<exists>out. snd (run example_parse one
                    [SocketMessage ''{"id":1,"resu'', SocketMessage ''{"id":1,"result":[]}''])
              = LogError (ErrorParsingJSON ''{"id":1,"resu'')
                # Receive (JObj [(''id'', JNum 1), (''result'', JArr [])]) # out\<close>
    using one frames props
      malformed_frame_logged_and_dropped [where JSON_parse = example_parse
        and data = \<open>''{"id":1,"resu''\<close> and s = one
        and c = \<open>\<lparr> last_id = 1, idToResolveMap = [(1, Mutate (example_params ''t1'') 7)] \<rparr>\<close>
        and good = \<open>''{"id":1,"result":[]}''\<close>
        and m = \<open>JObj [(''id'', JNum 1), (''result'', JArr [])]\<close>]
    by blast
  have progress: \<open>snd (run example_parse one
            [SocketMessage ''{"id":1,"resu'',
             SocketMessage ''{"method":"progress","params":{"token":"t1","value":42}}''])
       = [LogError (ErrorParsingJSON ''{"id":1,"resu''),
          SubjectNext (JObj [(''method'', JStr ''progress''),
                             (''params'', JObj [(''token'', JStr ''t1''), (''value'', JNum 42)])]),
          OnPartialResult 7 (Some (JNum 42))]\<close>
  proof -
    have \<open>snd (run example_parse one
            [SocketMessage ''{"id":1,"resu'',
             SocketMessage ''{"method":"progress","params":{"token":"t1","value":42}}''])
       = LogError (ErrorParsingJSON ''{"id":1,"resu'')
         # SubjectNext (JObj [(''method'', JStr ''progress''),
                             (''params'', JObj [(''token'', JStr ''t1''), (''value'', JNum 42)])])
         # map (\<lambda>sub. OnPartialResult (sub_callback sub)
                       (map_of [(''token'', JStr ''t1''), (''value'', JNum 42)] ''value''))
             (filter (\<lambda>sub. token_equals
                        (map_of [(''token'', JStr ''t1''), (''value'', JNum 42)] ''token'')
                        (sub_token sub))
                (observers one))\<close>
      using one frames props
        malformed_frame_logged_and_dropped [where JSON_parse = example_parse
          and data = \<open>''{"id":1,"resu''\<close> and s = one
          and c = \<open>\<lparr> last_id = 1, idToResolveMap = [(1, Mutate (example_params ''t1'') 7)] \<rparr>\<close>
          and good = \<open>''{"method":"progress","params":{"token":"t1","value":42}}''\<close>
          and m = \<open>JObj [(''method'', JStr ''progress''),
                          (''params'', JObj [(''token'', JStr ''t1''), (''value'', JNum 42)])]\<close>
          and fs = \<open>[(''token'', JStr ''t1''), (''value'', JNum 42)]\<close>]
      by blast
    then show ?thesis using one by simp
  qed
  show ?thesis
    using frames dropped response progress by (simp add: one_def)
qed

subsection \<open>Progress subscriptions\<close>

text \<open>
  Claim C2, as the code has it. \<open>mutate\<close>, called once the RPC client exists, subscribes
  the callback and keeps no handle to unsubscribe; nothing ends the subscription when the
  call completes. The subscription stays among the subject's observers through every
  sequence of later events in which no progress notification has missing or \<open>null\<close>
  parameters, and after any such sequence a progress event with the call's token invokes
  the callback again. The response that settles the call (on an open socket the request
  is sent at once, and the response bearing its id resolves or rejects the call as the
  response says) is one of those events. A progress notification with missing or \<open>null\<close>
  parameters is the one event that ends subscriptions, and it ends all of them.
\<close>

theorem subscription_outlives_call:
  "rpcClient s = Some c \<longrightarrow>
     \<lparr> sub_token = partialResultToken params, sub_callback = cb \<rparr>
       \<in> set (observers (fst (mutate s params cb)))
     \<and> ((\<forall>e\<in>set es. \<not> ends_subscriptions JSON_parse e) \<longrightarrow>
          \<lparr> sub_token = partialResultToken params, sub_callback = cb \<rparr>
            \<in> set (observers (fst (run JSON_parse (fst (mutate s params cb)) es)))
          \<and> (JSON_parse data_p = Some progress
              \<and> \<not> truthy_opt (get_prop progress ''id'')
              \<and> get_prop progress ''method'' = Some (JStr ''progress'')
              \<and> get_prop progress ''params'' = Some (JObj fs)
              \<and> token_equals (map_of fs ''token'') (partialResultToken params) \<longrightarrow>
                OnPartialResult cb (map_of fs ''value'')
                  \<in> set (snd (on_message JSON_parse
                                 (fst (run JSON_parse (fst (mutate s params cb)) es)) data_p))))
     \<and> (webSocket s = Some socket \<and> readyState socket = OPEN
         \<and> (\<forall>k\<in>fst ` set (idToResolveMap c). k \<le> last_id c)
         \<and> JSON_parse data_r = Some response
         \<and> get_prop response ''id'' = Some (JNum (of_nat (last_id c + 1))) \<longrightarrow>
           snd (mutate s params cb)
             = [WsSend OPEN \<lparr> request_id = last_id c + 1, request_method = ''mutate'',
                              request_params = Mutate params cb \<rparr>]
           \<and> snd (on_message JSON_parse (fst (mutate s params cb)) data_r)
               = [Receive response,
                  Settled (Mutate params cb) (response_outcome (Mutate params cb) response)]
           \<and> \<not> ends_subscriptions JSON_parse (SocketMessage data_r))
     \<and> (ends_subscriptions JSON_parse (SocketMessage data_e) \<longrightarrow>
           observers (fst (on_message JSON_parse
                             (fst (run JSON_parse (fst (mutate s params cb)) es)) data_e)) = [])"
proof (intro impI)
  assume client: "rpcClient s = Some c"
  define sub where "sub = \<lparr> sub_token = partialResultToken params, sub_callback = cb \<rparr>"
  define s1 where "s1 = fst (mutate s params cb)"
  have obs1: "observers s1 = observers s @ [sub]"
    using client by (simp add: s1_def sub_def mutate_def rpc_request_def)
  then have first: "sub \<in> set (observers s1)" by simp
  have later: "sub \<in> set (observers (fst (run JSON_parse s1 es)))
          \<and> (JSON_parse data_p = Some progress
              \<and> \<not> truthy_opt (get_prop progress ''id'')
              \<and> get_prop progress ''method'' = Some (JStr ''progress'')
              \<and> get_prop progress ''params'' = Some (JObj fs)
              \<and> token_equals (map_of fs ''token'') (partialResultToken params) \<longrightarrow>
                OnPartialResult cb (map_of fs ''value'')
                  \<in> set (snd (on_message JSON_parse (fst (run JSON_parse s1 es)) data_p)))"
    if quiet: "\<forall>e\<in>set es. \<not> ends_subscriptions JSON_parse e"
  proof -
    define s2 where "s2 = fst (run JSON_parse s1 es)"
    obtain new where "observers s2 = observers s1 @ new"
      using run_keeps_observers [OF quiet, of s1] by (auto simp: s2_def)
    then have still: "sub \<in> set (observers s2)"
      using first by simp
    have again: "OnPartialResult cb (map_of fs ''value'')
                  \<in> set (snd (on_message JSON_parse s2 data_p))"
      if p: "JSON_parse data_p = Some progress
              \<and> \<not> truthy_opt (get_prop progress ''id'')
              \<and> get_prop progress ''method'' = Some (JStr ''progress'')
              \<and> get_prop progress ''params'' = Some (JObj fs)
              \<and> token_equals (map_of fs ''token'') (partialResultToken params)"
    proof -
      have "truthy progress" using p by (cases progress) simp_all
      then have "snd (on_message JSON_parse s2 data_p)
          = SubjectNext progress # snd (subject_next (observers s2) progress)"
        using p by (simp add: on_message_def notification_next_def)
      moreover have "OnPartialResult cb (map_of fs ''value'')
          \<in> set (snd (subject_next (observers s2) progress))"
        using p still subject_next_progress [of progress fs "observers s2"]
        by (force simp: sub_def)
      ultimately show ?thesis by simp
    qed
    show ?thesis using still again by (simp add: s2_def)
  qed
  have completes: "snd (mutate s params cb)
             = [WsSend OPEN \<lparr> request_id = last_id c + 1, request_method = ''mutate'',
                              request_params = Mutate params cb \<rparr>]
           \<and> snd (on_message JSON_parse s1 data_r)
               = [Receive response,
                  Settled (Mutate params cb) (response_outcome (Mutate params cb) response)]
           \<and> \<not> ends_subscriptions JSON_parse (SocketMessage data_r)"
    if a: "webSocket s = Some socket \<and> readyState socket = OPEN
         \<and> (\<forall>k\<in>fst ` set (idToResolveMap c). k \<le> last_id c)
         \<and> JSON_parse data_r = Some response
         \<and> get_prop response ''id'' = Some (JNum (of_nat (last_id c + 1)))"
  proof -
    have sent: "snd (mutate s params cb)
       = [WsSend OPEN \<lparr> request_id = last_id c + 1, request_method = ''mutate'',
                        request_params = Mutate params cb \<rparr>]"
      using a client
      by (simp add: mutate_def rpc_request_def send_adapter_open [where socket = socket])
    have client1: "rpcClient s1
        = Some (c\<lparr> last_id := last_id c + 1,
                   idToResolveMap := idToResolveMap c @ [(last_id c + 1, Mutate params cb)] \<rparr>)"
      using a client mutate_ready(1) [of s c socket params cb] by (simp add: s1_def)
    have response_truthy: "truthy response"
      using a by (cases response) simp_all
    have id_truthy: "truthy_opt (get_prop response ''id'')"
      using a by (simp add: truthy_opt_def)
    have msg: "on_message JSON_parse s1 data_r = rpc_receive s1 response"
      using a response_truthy id_truthy by (simp add: on_message_def)
    have found: "pending_call
          (c\<lparr> last_id := last_id c + 1,
              idToResolveMap := idToResolveMap c @ [(last_id c + 1, Mutate params cb)] \<rparr>)
          (get_prop response ''id'')
        = Some (last_id c + 1, Mutate params cb)"
      using a pending_call_fresh [of "idToResolveMap c" "last_id c" "Mutate params cb"]
      by (simp add: pending_call_def)
    have settle: "snd (on_message JSON_parse s1 data_r)
        = [Receive response,
           Settled (Mutate params cb) (response_outcome (Mutate params cb) response)]"
      using client1 found by (simp add: msg rpc_receive_def)
    have "\<not> ends_subscriptions JSON_parse (SocketMessage data_r)"
      using a id_truthy by simp
    then show ?thesis using sent settle by simp
  qed
  have ends: "observers (fst (on_message JSON_parse (fst (run JSON_parse s1 es)) data_e)) = []"
    if "ends_subscriptions JSON_parse (SocketMessage data_e)"
    using that by (rule on_message_ends_observers)
  show "\<lparr> sub_token = partialResultToken params, sub_callback = cb \<rparr>
       \<in> set (observers (fst (mutate s params cb)))
     \<and> ((\<forall>e\<in>set es. \<not> ends_subscriptions JSON_parse e) \<longrightarrow>
          \<lparr> sub_token = partialResultToken params, sub_callback = cb \<rparr>
            \<in> set (observers (fst (run JSON_parse (fst (mutate s params cb)) es)))
          \<and> (JSON_parse data_p = Some progress
              \<and> \<not> truthy_opt (get_prop progress ''id'')
              \<and> get_prop progress ''method'' = Some (JStr ''progress'')
              \<and> get_prop progress ''params'' = Some (JObj fs)
              \<and> token_equals (map_of fs ''token'') (partialResultToken params) \<longrightarrow>
                OnPartialResult cb (map_of fs ''value'')
                  \<in> set (snd (on_message JSON_parse
                                 (fst (run JSON_parse (fst (mutate s params cb)) es)) data_p))))
     \<and> (webSocket s = Some socket \<and> readyState socket = OPEN
         \<and> (\<forall>k\<in>fst ` set (idToResolveMap c). k \<le> last_id c)
         \<and> JSON_parse data_r = Some response
         \<and> get_prop response ''id'' = Some (JNum (of_nat (last_id c + 1))) \<longrightarrow>
           snd (mutate s params cb)
             = [WsSend OPEN \<lparr> request_id = last_id c + 1, request_method = ''mutate'',
                              request_params = Mutate params cb \<rparr>]
           \<and> snd (on_message JSON_parse (fst (mutate s params cb)) data_r)
               = [Receive response,
                  Settled (Mutate params cb) (response_outcome (Mutate params cb) response)]
           \<and> \<not> ends_subscriptions JSON_parse (SocketMessage data_r))
     \<and> (ends_subscriptions JSON_parse (SocketMessage data_e) \<longrightarrow>
           observers (fst (on_message JSON_parse
                             (fst (run JSON_parse (fst (mutate s params cb)) es)) data_e)) = [])"
    using first later completes ends unfolding s1_def sub_def by blast
qed

theorem subscription_outlives_call_witness:
  \<open>list_all (\<lambda>e. \<not> ends_subscriptions example_parse e)
     [SocketMessage ''{"id":1,"result":[]}'', StderrData ''warning'',
      CallMutate (example_params ''t2'') 8]
   \<and> \<lparr> sub_token = TokenString ''t1'', sub_callback = 7 \<rparr>
       \<in> set (observers (fst (run example_parse
                 (fst (mutate example_ready (example_params ''t1'') 7))
                 [SocketMessage ''{"id":1,"result":[]}'', StderrData ''warning'',
                  CallMutate (example_params ''t2'') 8])))
   \<and> OnPartialResult 7 (Some (JNum 42))
       \<in> set (snd (on_message example_parse
                 (fst (run example_parse
                    (fst (mutate example_ready (example_params ''t1'') 7))
                    [SocketMessage ''{"id":1,"result":[]}'', StderrData ''warning'',
                     CallMutate (example_params ''t2'') 8]))
                 ''{"method":"progress","params":{"token":"t1","value":42}}''))
   \<and> snd (on_message example_parse (fst (mutate example_ready (example_params ''t1'') 7))
            ''{"id":1,"result":[]}'')
       = [Receive (JObj [(''id'', JNum 1), (''result'', JArr [])]),
          Settled (Mutate (example_params ''t1'') 7) (Resolved None)]
   \<and> ends_subscriptions example_parse (SocketMessage ''{"method":"progress"}'')
   \<and> observers (fst (on_message example_parse
         (fst (run example_parse
            (fst (mutate example_ready (example_params ''t1'') 7))
            [SocketMessage ''{"id":1,"result":[]}'', StderrData ''warning'',
             CallMutate (example_params ''t2'') 8]))
         ''{"method":"progress"}'')) = []\<close>
proof -
  have h: \<open>rpcClient example_ready = Some \<lparr> last_id = 0, idToResolveMap = [] \<rparr>
      \<and> webSocket example_ready = Some (example_socket OPEN)
      \<and> readyState (example_socket OPEN) = OPEN
      \<and> (\<forall>k\<in>fst ` set (idToResolveMap \<lparr> last_id = 0, idToResolveMap = [] \<rparr>).
            k \<le> last_id \<lparr> last_id = 0, idToResolveMap = [] \<rparr>)
      \<and> example_parse ''{"id":1,"result":[]}'' = Some (JObj [(''id'', JNum 1), (''result'', JArr [])])
      \<and> get_prop (JObj [(''id'', JNum 1), (''result'', JArr [])]) ''id''
          = Some (JNum (of_nat (last_id \<lparr> last_id = 0, idToResolveMap = [] \<rparr> + 1)))
      \<and> example_parse ''{"method":"progress","params":{"token":"t1","value":42}}''
          = Some (JObj [(''method'', JStr ''progress''),
                        (''params'', JObj [(''token'', JStr ''t1''), (''value'', JNum 42)])])
      \<and> \<not> truthy_opt (get_prop (JObj [(''method'', JStr ''progress''),
                        (''params'', JObj [(''token'', JStr ''t1''), (''value'', JNum 42)])]) ''id'')
      \<and> get_prop (JObj [(''method'', JStr ''progress''),
                        (''params'', JObj [(''token'', JStr ''t1''), (''value'', JNum 42)])]) ''method''
          = Some (JStr ''progress'')
      \<and> get_prop (JObj [(''method'', JStr ''progress''),
                        (''params'', JObj [(''token'', JStr ''t1''), (''value'', JNum 42)])]) ''params''
          = Some (JObj [(''token'', JStr ''t1''), (''value'', JNum 42)])
      \<and> token_equals (map_of [(''token'', JStr ''t1''), (''value'', JNum 42)] ''token'')
            (partialResultToken (example_params ''t1''))\<close>
    by (simp add: example_parse_def truthy_opt_def example_ready_def example_connected_def
        example_created_def example_socket_def example_params_def)
  have quiet: \<open>\<forall>e\<in>set [SocketMessage ''{"id":1,"result":[]}'', StderrData ''warning'',
                         CallMutate (example_params ''t2'') 8].
                 \<not> ends_subscriptions example_parse e\<close>
    by (simp add: example_parse_def truthy_opt_def)
  have ending: \<open>ends_subscriptions example_parse (SocketMessage ''{"method":"progress"}'')\<close>
    by (simp add: example_parse_def truthy_opt_def)
  have v: \<open>map_of [(''token'', JStr ''t1''), (''value'', JNum 42)] ''value'' = Some (JNum 42)
      \<and> response_outcome (Mutate (example_params ''t1'') 7)
            (JObj [(''id'', JNum 1), (''result'', JArr [])]) = Resolved None
      \<and> partialResultToken (example_params ''t1'') = TokenString ''t1''\<close>
    by (simp add: response_outcome_def example_params_def)
  show ?thesis
    unfolding list_all_iff
    using h quiet ending v
      subscription_outlives_call [where JSON_parse = example_parse and s = example_ready
        and c = \<open>\<lparr> last_id = 0, idToResolveMap = [] \<rparr>\<close> and socket = \<open>example_socket OPEN\<close>
        and es = \<open>[SocketMessage ''{"id":1,"result":[]}'', StderrData ''warning'',
                   CallMutate (example_params ''t2'') 8]\<close>
        and data_r = \<open>''{"id":1,"result":[]}''\<close>
        and response = \<open>JObj [(''id'', JNum 1), (''result'', JArr [])]\<close>
        and data_p = \<open>''{"method":"progress","params":{"token":"t1","value":42}}''\<close>
        and progress = \<open>JObj [(''method'', JStr ''progress''),
                        (''params'', JObj [(''token'', JStr ''t1''), (''value'', JNum 42)])]\<close>
        and fs = \<open>[(''token'', JStr ''t1''), (''value'', JNum 42)]\<close>
        and data_e = \<open>''{"method":"progress"}''\<close>
        and params = \<open>example_params ''t1''\<close> and cb = 7]
    by metis
qed

text \<open>
  The claim as written fails in this execution: the call is settled, once resolved and
  once rejected, and the progress event that follows still invokes its callback.
\<close>

theorem subscription_torn_down_counterexample:
  \<open>snd (run example_parse example_ready
          [CallMutate (example_params ''t1'') 7,
           SocketMessage ''{"id":1,"result":[]}'',
           SocketMessage ''{"method":"progress","params":{"token":"t1","value":42}}''])
     = [WsSend OPEN example_request,
        Receive (JObj [(''id'', JNum 1), (''result'', JArr [])]),
        Settled (Mutate (example_params ''t1'') 7) (Resolved None),
        SubjectNext (JObj [(''method'', JStr ''progress''),
                           (''params'', JObj [(''token'', JStr ''t1''), (''value'', JNum 42)])]),
        OnPartialResult 7 (Some (JNum 42))]
   \<and> snd (run example_parse example_ready
          [CallMutate (example_params ''t1'') 7,
           SocketMessage ''{"id":1,"error":{"code":1}}'',
           SocketMessage ''{"method":"progress","params":{"token":"t1","value":42}}''])
     = [WsSend OPEN example_request,
        Receive (JObj [(''id'', JNum 1), (''error'', JObj [(''code'', JNum 1)])]),
        Settled (Mutate (example_params ''t1'') 7)
          (RejectedRpcError (JObj [(''code'', JNum 1)])),
        SubjectNext (JObj [(''method'', JStr ''progress''),
                           (''params'', JObj [(''token'', JStr ''t1''), (''value'', JNum 42)])]),
        OnPartialResult 7 (Some (JNum 42))]\<close>
  by (simp add: example_parse_def example_ready_def example_connected_def example_created_def
      example_params_def example_request_def mutate_def rpc_request_def send_adapter_def
      waitForOpenSocket_def socket_send_def on_message_def truthy_opt_def rpc_receive_def
      pending_call_def response_outcome_def notification_next_def subject_next_def
      observer_next_def List.map_filter_simps)




subsection \<open>Port discovery\<close>

text \<open>
  Claim C4, as the code has it. When the engine process exits before a banner has been
  seen, the port wait does not fail: the exit is logged and nothing else happens, the
  promise is never rejected in any continuation, and it stays pending for as long as no
  chunk of standard output matches the banner.
\<close>

theorem port_wait_pending_after_exit:
  "port_promise s = Pending \<longrightarrow>
     on_exit s code = (s, [LogInfo (ExitedWithCode code)])
     \<and> (\<forall>e. port_promise (fst (run JSON_parse s (ProcessExit code # es))) \<noteq> Rejected e)
     \<and> ((\<forall>ev\<in>set es. \<not> is_stdout_banner ev) \<longrightarrow>
          port_promise (fst (run JSON_parse s (ProcessExit code # es))) = Pending)"
proof (intro impI conjI allI)
  show "on_exit s code = (s, [LogInfo (ExitedWithCode code)])"
    by (simp add: on_exit_def)
next
  fix e assume "port_promise s = Pending"
  then have "\<forall>e. port_promise s \<noteq> Rejected e" by simp
  from run_port_promise_not_rejected [OF this]
  show "port_promise (fst (run JSON_parse s (ProcessExit code # es))) \<noteq> Rejected e" .
next
  assume "port_promise s = Pending" and "\<forall>ev\<in>set es. \<not> is_stdout_banner ev"
  then show "port_promise (fst (run JSON_parse s (ProcessExit code # es))) = Pending"
    using run_port_promise_quiet [of "ProcessExit code # es" JSON_parse s] by simp
qed

theorem port_wait_pending_after_exit_witness:
  "port_promise example_created = Pending
   \<and> list_all (\<lambda>ev. \<not> is_stdout_banner ev) [StderrData ''crashed'', StdoutData ''bye'']
   \<and> port_promise (fst (run example_parse example_created
         (ProcessExit (Some 1) # [StderrData ''crashed'', StdoutData ''bye'']))) = Pending"
proof -
  have h: "port_promise example_created = Pending
      \<and> (\<forall>ev\<in>set [StderrData ''crashed'', StdoutData ''bye'']. \<not> is_stdout_banner ev)"
    by (simp add: example_created_def banner_def is_digit_def)
  show ?thesis
    unfolding list_all_iff
    using h port_wait_pending_after_exit [where s = example_created and JSON_parse = example_parse
        and code = "Some 1" and es = "[StderrData ''crashed'', StdoutData ''bye'']"]
    by blast
qed

text \<open>
  The claim as written fails in this execution: the process exits with no banner seen,
  and the instance is what it was, with the port promise pending.
\<close>

theorem port_wait_fails_after_exit_counterexample:
  "port_promise example_created = Pending
   \<and> run example_parse example_created
         [StdoutData ''starting'', ProcessExit (Some 1), StderrData ''crashed'']
       = (example_created,
          [LogInfo (ProcessOutput ''starting''), LogInfo (ExitedWithCode (Some 1)),
           LogError (ProcessOutput ''crashed'')])"
  by (simp add: example_created_def on_stdout_data_def on_exit_def on_stderr_data_def
      banner_def is_digit_def)

text \<open>
  Claim C5, as the code has it. The port wait settles once: it is fulfilled with the
  number that \<open>parseInt\<close> reads from the digits after the banner in the first chunk that
  matches, and its value never changes afterwards. For a banner followed by the decimal
  numeral of \<open>n\<close> that number is \<open>n\<close> when \<open>n\<close> is at most \<open>2 ^ 53\<close>; for a larger
  numeral it is a double near it. The scanning listener is not removed: the listeners of
  standard output stay what they were, and every later chunk that matches the banner is
  matched again and calls \<open>resolve\<close> again, to no effect.
\<close>

theorem port_wait_first_match:
  "port_promise s = Pending \<and> ScanPort \<in> set (stdout_listeners s)
   \<and> (\<forall>ev\<in>set es. \<not> is_stdout_banner ev) \<and> banner_exec chunk = Some ds \<longrightarrow>
     port_promise (fst (run JSON_parse s (es @ [StdoutData chunk]))) = Fulfilled (parseInt ds)
     \<and> port_promise (fst (run JSON_parse s (es @ StdoutData chunk # later))) = Fulfilled (parseInt ds)
     \<and> stdout_listeners (fst (run JSON_parse s (es @ StdoutData chunk # later))) = stdout_listeners s
     \<and> (\<forall>chunk' ds'. banner_exec chunk' = Some ds' \<longrightarrow>
          ResolvePort (parseInt ds')
            \<in> set (snd (step JSON_parse (fst (run JSON_parse s (es @ StdoutData chunk # later)))
                          (StdoutData chunk'))))
     \<and> banner_exec (banner @ string_of_nat n) = Some (string_of_nat n)
     \<and> parseInt (string_of_nat n)
         = (if n \<le> 2 ^ 53 then Integer n else Inexact (string_of_nat n))"
proof (intro impI)
  assume a: "port_promise s = Pending \<and> ScanPort \<in> set (stdout_listeners s)
   \<and> (\<forall>ev\<in>set es. \<not> is_stdout_banner ev) \<and> banner_exec chunk = Some ds"
  define s1 where "s1 = fst (run JSON_parse s es)"
  define s2 where "s2 = fst (step JSON_parse s1 (StdoutData chunk))"
  have s1: "port_promise s1 = Pending" "stdout_listeners s1 = stdout_listeners s"
    using a run_port_promise_quiet [of es JSON_parse s]
    by (simp_all add: s1_def run_stdout_listeners)
  have s2: "port_promise s2 = Fulfilled (parseInt ds)"
    using a s1 foldl_stdout_resolves [of chunk ds "(s1, [])" "stdout_listeners s1"]
    by (simp add: s2_def on_stdout_data_def)
  have first: "port_promise (fst (run JSON_parse s (es @ [StdoutData chunk]))) = Fulfilled (parseInt ds)"
    using s2 by (simp add: run_append s1_def s2_def)
  have final: "fst (run JSON_parse s (es @ StdoutData chunk # later)) = fst (run JSON_parse s2 later)"
    by (simp add: run_append s1_def s2_def)
  have kept: "port_promise (fst (run JSON_parse s2 later)) = Fulfilled (parseInt ds)"
    using s2 run_port_promise_settled [of s2 JSON_parse later] by simp
  have listeners: "stdout_listeners (fst (run JSON_parse s2 later)) = stdout_listeners s"
    using s1 step_stdout_listeners [of JSON_parse s1 "StdoutData chunk"]
    by (simp add: run_stdout_listeners s2_def)
  have again: "ResolvePort (parseInt ds')
        \<in> set (snd (step JSON_parse (fst (run JSON_parse s2 later)) (StdoutData chunk')))"
    if "banner_exec chunk' = Some ds'" for chunk' ds'
    using that a listeners
      foldl_stdout_rescans [of chunk' ds' "stdout_listeners (fst (run JSON_parse s2 later))"
        "(fst (run JSON_parse s2 later), [])"]
    by (simp add: on_stdout_data_def)
  show "port_promise (fst (run JSON_parse s (es @ [StdoutData chunk]))) = Fulfilled (parseInt ds)
     \<and> port_promise (fst (run JSON_parse s (es @ StdoutData chunk # later))) = Fulfilled (parseInt ds)
     \<and> stdout_listeners (fst (run JSON_parse s (es @ StdoutData chunk # later))) = stdout_listeners s
     \<and> (\<forall>chunk' ds'. banner_exec chunk' = Some ds' \<longrightarrow>
          ResolvePort (parseInt ds')
            \<in> set (snd (step JSON_parse (fst (run JSON_parse s (es @ StdoutData chunk # later)))
                          (StdoutData chunk'))))
     \<and> banner_exec (banner @ string_of_nat n) = Some (string_of_nat n)
     \<and> parseInt (string_of_nat n)
         = (if n \<le> 2 ^ 53 then Integer n else Inexact (string_of_nat n))"
    using first kept listeners again
    by (simp add: final banner_exec_decimal parseInt_string_of_nat)
qed

theorem port_wait_first_match_witness:
  "port_promise example_created = Pending
   \<and> ScanPort \<in> set (stdout_listeners example_created)
   \<and> banner_exec ''Server is listening on port: 8080'' = Some ''8080''
   \<and> port_promise (fst (run example_parse example_created
        ([StdoutData ''starting''] @ StdoutData ''Server is listening on port: 8080''
           # [StdoutData ''Server is listening on port: 9090'']))) = Fulfilled (Integer 8080)
   \<and> stdout_listeners (fst (run example_parse example_created
        ([StdoutData ''starting''] @ StdoutData ''Server is listening on port: 8080''
           # [StdoutData ''Server is listening on port: 9090''])))
       = [LogStdout, ScanPort]"
proof -
  have h: "port_promise example_created = Pending
      \<and> ScanPort \<in> set (stdout_listeners example_created)
      \<and> (\<forall>ev\<in>set [StdoutData ''starting'']. \<not> is_stdout_banner ev)
      \<and> banner_exec ''Server is listening on port: 8080'' = Some ''8080''
      \<and> parseInt ''8080'' = Integer 8080
      \<and> stdout_listeners example_created = [LogStdout, ScanPort]"
    by (simp add: example_created_def banner_def is_digit_def parseInt_def decimal_def)
  show ?thesis
    using h port_wait_first_match [where s = example_created and JSON_parse = example_parse
        and es = "[StdoutData ''starting'']" and chunk = "''Server is listening on port: 8080''"
        and ds = "''8080''" and later = "[StdoutData ''Server is listening on port: 9090'']"]
    by metis
qed

text \<open>
  The claim as written fails in this execution: after the first banner the listener is
  still registered, and the second banner is matched and passed to \<open>resolve\<close>.
\<close>

theorem port_wait_unsubscribes_counterexample:
  "run example_parse example_created
      [StdoutData ''Server is listening on port: 8080'',
       StdoutData ''Server is listening on port: 9090'']
    = (example_connected,
       [LogInfo (ProcessOutput ''Server is listening on port: 8080''),
        ResolvePort (Integer 8080),
        LogInfo (ProcessOutput ''Server is listening on port: 9090''),
        ResolvePort (Integer 9090)])
   \<and> stdout_listeners example_connected = [LogStdout, ScanPort]
   \<and> port_promise example_connected = Fulfilled (Integer 8080)"
  by (simp add: example_created_def example_connected_def on_stdout_data_def
      banner_def is_digit_def parseInt_def decimal_def resolve_def connect_resume_def
      connectViaWebSocket_def)

subsection \<open>Sending and the open socket\<close>

text \<open>
  Claim C6. In every execution, from every state, each call of \<open>send\<close> on the socket is
  made while the socket's ready state is \<open>OPEN\<close>; as long as the socket is not open and no
  \<open>open\<close> event has arrived, no call of \<open>send\<close> is made at all. The send adapter, called
  on a socket that is not open, sends nothing and only waits; the \<open>open\<close> event then makes
  it send the request.
\<close>

theorem send_only_once_open:
  "(\<forall>x\<in>set (snd (run JSON_parse s es)). send_state x = None \<or> send_state x = Some OPEN)
   \<and> (\<not> socket_is_open s \<and> SocketOpen \<notin> set es \<longrightarrow>
        (\<forall>x\<in>set (snd (run JSON_parse s es)). send_state x = None))
   \<and> (\<forall>socket. webSocket s = Some socket \<and> readyState socket \<noteq> OPEN \<longrightarrow>
        snd (send_adapter s r) = []
        \<and> WsSend OPEN r \<in> set (snd (on_open (fst (send_adapter s r)))))"
proof (intro conjI allI impI ballI)
  fix x assume "x \<in> set (snd (run JSON_parse s es))"
  then show "send_state x = None \<or> send_state x = Some OPEN"
    by (rule run_effects_send_open)
next
  fix x assume "\<not> socket_is_open s \<and> SocketOpen \<notin> set es"
    and "x \<in> set (snd (run JSON_parse s es))"
  then show "send_state x = None"
    using run_not_open [of s es JSON_parse] by blast
next
  fix socket assume "webSocket s = Some socket \<and> readyState socket \<noteq> OPEN"
  then show "snd (send_adapter s r) = []"
    by (simp add: send_adapter_waiting [where socket = socket])
next
  fix socket assume a: "webSocket s = Some socket \<and> readyState socket \<noteq> OPEN"
  have "fst (send_adapter s r)
        = s\<lparr> webSocket := Some (socket\<lparr> open_listeners :=
               open_listeners socket @ [\<lparr> settled = False, awaiting = r \<rparr>] \<rparr>) \<rparr>"
    using a by (simp add: send_adapter_waiting [where socket = socket])
  then show "WsSend OPEN r \<in> set (snd (on_open (fst (send_adapter s r))))"
    by (simp add: on_open_result [where socket = "socket\<lparr> open_listeners :=
               open_listeners socket @ [\<lparr> settled = False, awaiting = r \<rparr>] \<rparr>"])
qed

theorem send_only_once_open_witness:
  "\<not> socket_is_open example_created
   \<and> SocketOpen \<notin> set [StdoutData ''Server is listening on port: 8080'',
                          CallMutate (example_params ''t1'') 7]
   \<and> list_all (\<lambda>x. send_state x = None)
        (snd (run example_parse example_created
                [StdoutData ''Server is listening on port: 8080'',
                 CallMutate (example_params ''t1'') 7]))
   \<and> list_all (\<lambda>x. send_state x = None \<or> send_state x = Some OPEN)
        (snd (run example_parse example_created
                [StdoutData ''Server is listening on port: 8080'',
                 CallMutate (example_params ''t1'') 7, SocketOpen]))"
proof -
  have h: "\<not> socket_is_open example_created
     \<and> SocketOpen \<notin> set [StdoutData ''Server is listening on port: 8080'',
                            CallMutate (example_params ''t1'') 7]"
    by (simp add: socket_is_open_def example_created_def)
  show ?thesis
    unfolding list_all_iff
    using h send_only_once_open [of example_parse example_created
        "[StdoutData ''Server is listening on port: 8080'', CallMutate (example_params ''t1'') 7]"]
      send_only_once_open [of example_parse example_created
        "[StdoutData ''Server is listening on port: 8080'', CallMutate (example_params ''t1'') 7,
          SocketOpen]"]
    by blast
qed

text \<open>
  Claim C9. \<open>waitForOpenSocket\<close> on a socket whose ready state is \<open>OPEN\<close> yields a promise
  that is already fulfilled and leaves the socket as it was: no listener is added. On a
  socket that is not open it adds one \<open>open\<close> listener and yields a pending promise;
  whatever else happens in between, the next \<open>open\<close> event settles every such promise and
  the adapter that awaited it sends its request.
\<close>

theorem waitForOpenSocket_idempotent:
  "(readyState socket = OPEN \<longrightarrow> waitForOpenSocket socket r = (socket, Fulfilled ()))
   \<and> (readyState socket \<noteq> OPEN \<longrightarrow>
        waitForOpenSocket socket r
          = (socket\<lparr> open_listeners :=
                       open_listeners socket @ [\<lparr> settled = False, awaiting = r \<rparr>] \<rparr>,
             Pending))
   \<and> (webSocket s = Some socket \<and> readyState socket \<noteq> OPEN \<and> port_promise s \<noteq> Pending
        \<and> rpcClient s \<noteq> None \<and> SocketOpen \<notin> set es \<longrightarrow>
        WsSend OPEN r
          \<in> set (snd (on_open (fst (run JSON_parse (fst (send_adapter s r)) es))))
        \<and> (\<forall>socket'.
              webSocket (fst (on_open (fst (run JSON_parse (fst (send_adapter s r)) es))))
                = Some socket' \<longrightarrow>
              readyState socket' = OPEN \<and> (\<forall>w\<in>set (open_listeners socket'). settled w)))"
proof -
  have first: "readyState socket = OPEN \<longrightarrow> waitForOpenSocket socket r = (socket, Fulfilled ())"
    by (simp add: waitForOpenSocket_def)
  have second: "readyState socket \<noteq> OPEN \<longrightarrow>
        waitForOpenSocket socket r
          = (socket\<lparr> open_listeners :=
                       open_listeners socket @ [\<lparr> settled = False, awaiting = r \<rparr>] \<rparr>,
             Pending)"
    by (simp add: waitForOpenSocket_def)
  have third: "WsSend OPEN r
          \<in> set (snd (on_open (fst (run JSON_parse (fst (send_adapter s r)) es))))
        \<and> (\<forall>socket'.
              webSocket (fst (on_open (fst (run JSON_parse (fst (send_adapter s r)) es))))
                = Some socket' \<longrightarrow>
              readyState socket' = OPEN \<and> (\<forall>w\<in>set (open_listeners socket'). settled w))"
    if a: "webSocket s = Some socket \<and> readyState socket \<noteq> OPEN \<and> port_promise s \<noteq> Pending
        \<and> rpcClient s \<noteq> None \<and> SocketOpen \<notin> set es"
  proof -
    define socket1 where "socket1 = socket\<lparr> open_listeners :=
        open_listeners socket @ [\<lparr> settled = False, awaiting = r \<rparr>] \<rparr>"
    define s1 where "s1 = s\<lparr> webSocket := Some socket1 \<rparr>"
    have s1: "fst (send_adapter s r) = s1"
      using a by (simp add: send_adapter_waiting [where socket = socket] s1_def socket1_def)
    have "webSocket s1 = Some socket1" "readyState socket1 \<noteq> OPEN" "port_promise s1 \<noteq> Pending"
      "rpcClient s1 \<noteq> None"
      using a by (simp_all add: s1_def socket1_def)
    from run_keeps_waiting [OF this, of es JSON_parse] a
    obtain socket2 ws where s2: "webSocket (fst (run JSON_parse s1 es)) = Some socket2"
      "open_listeners socket2 = open_listeners socket1 @ ws"
      by blast
    have member: "\<lparr> settled = False, awaiting = r \<rparr> \<in> set (open_listeners socket2)"
      using s2(2) by (simp add: socket1_def)
    have "\<exists>w\<in>set (open_listeners socket2). \<not> settled w \<and> awaiting w = r"
      using member by force
    then have sent: "WsSend OPEN r \<in> set (snd (on_open (fst (run JSON_parse s1 es))))"
      by (force simp: on_open_result [OF s2(1)] image_iff)
    have after: "\<forall>socket'. webSocket (fst (on_open (fst (run JSON_parse s1 es)))) = Some socket' \<longrightarrow>
        readyState socket' = OPEN \<and> (\<forall>w\<in>set (open_listeners socket'). settled w)"
      by (auto simp: on_open_result [OF s2(1)])
    show ?thesis using sent after by (simp add: s1)
  qed
  show ?thesis using first second third by blast
qed

theorem waitForOpenSocket_idempotent_witness:
  "readyState (example_socket OPEN) = OPEN
   \<and> waitForOpenSocket (example_socket OPEN) example_request
       = (example_socket OPEN, Fulfilled ())
   \<and> readyState (example_socket CONNECTING) \<noteq> OPEN
   \<and> SocketOpen \<notin> set [StderrData ''warming up'', SocketError ''reset'']
   \<and> WsSend OPEN example_request
       \<in> set (snd (on_open (fst (run example_parse (fst (send_adapter example_connected example_request))
                                  [StderrData ''warming up'', SocketError ''reset'']))))"
proof -
  have h: "webSocket example_connected = Some (example_socket CONNECTING)
      \<and> readyState (example_socket CONNECTING) \<noteq> OPEN
      \<and> port_promise example_connected \<noteq> Pending \<and> rpcClient example_connected \<noteq> None
      \<and> SocketOpen \<notin> set [StderrData ''warming up'', SocketError ''reset'']"
    by (simp add: example_connected_def example_created_def example_socket_def)
  have o: "readyState (example_socket OPEN) = OPEN"
    by (simp add: example_socket_def)
  show ?thesis
    using h o
      waitForOpenSocket_idempotent [where socket = "example_socket OPEN" and r = example_request]
      waitForOpenSocket_idempotent [where socket = "example_socket CONNECTING"
        and r = example_request and s = example_connected and JSON_parse = example_parse
        and es = "[StderrData ''warming up'', SocketError ''reset'']"]
    by blast
qed

text \<open>
  Claim C10. The promise of \<open>waitForOpenSocket\<close> is never rejected and is fulfilled at
  once exactly when the socket is open. While the socket is not open, in every execution
  without an \<open>open\<close> event (errors and closes included) the socket stays not open, every
  wait registered stays pending, each request issued has such a pending wait, nothing is
  sent and no request is rejected for a failed send.
\<close>

theorem open_wait_never_rejects:
  "(\<forall>e. snd (waitForOpenSocket socket r) \<noteq> Rejected e)
   \<and> (snd (waitForOpenSocket socket r) = Fulfilled () \<longleftrightarrow> readyState socket = OPEN)
   \<and> (webSocket s = Some socket \<and> readyState socket \<noteq> OPEN \<and> port_promise s \<noteq> Pending
        \<and> rpcClient s \<noteq> None \<and> SocketOpen \<notin> set es \<longrightarrow>
        (\<exists>socket' ws.
            webSocket (fst (run JSON_parse s es)) = Some socket'
            \<and> readyState socket' \<noteq> OPEN
            \<and> open_listeners socket' = open_listeners socket @ ws
            \<and> (\<forall>w\<in>set ws. \<not> settled w)
            \<and> (\<forall>e\<in>set es. \<forall>cl. issued_call e = Some cl \<longrightarrow>
                  (\<exists>w\<in>set ws. request_params (awaiting w) = cl)))
        \<and> (\<forall>x\<in>set (snd (run JSON_parse s es)). send_state x = None \<and> \<not> is_send_failure x))"
proof -
  have first: "\<forall>e. snd (waitForOpenSocket socket r) \<noteq> Rejected e"
    by (simp add: waitForOpenSocket_def)
  have second: "snd (waitForOpenSocket socket r) = Fulfilled () \<longleftrightarrow> readyState socket = OPEN"
    by (simp add: waitForOpenSocket_def)
  have third: "(\<exists>socket' ws.
            webSocket (fst (run JSON_parse s es)) = Some socket'
            \<and> readyState socket' \<noteq> OPEN
            \<and> open_listeners socket' = open_listeners socket @ ws
            \<and> (\<forall>w\<in>set ws. \<not> settled w)
            \<and> (\<forall>e\<in>set es. \<forall>cl. issued_call e = Some cl \<longrightarrow>
                  (\<exists>w\<in>set ws. request_params (awaiting w) = cl)))
        \<and> (\<forall>x\<in>set (snd (run JSON_parse s es)). send_state x = None \<and> \<not> is_send_failure x)"
    if a: "webSocket s = Some socket \<and> readyState socket \<noteq> OPEN \<and> port_promise s \<noteq> Pending
        \<and> rpcClient s \<noteq> None \<and> SocketOpen \<notin> set es"
  proof -
    have "webSocket s = Some socket" "readyState socket \<noteq> OPEN" "port_promise s \<noteq> Pending"
      "rpcClient s \<noteq> None" "SocketOpen \<notin> set es"
      using a by simp_all
    from run_keeps_waiting [OF this, of JSON_parse] show ?thesis by blast
  qed
  show ?thesis using first second third by blast
qed

theorem open_wait_never_rejects_witness:
  "webSocket example_connected = Some (example_socket CONNECTING)
   \<and> readyState (example_socket CONNECTING) \<noteq> OPEN
   \<and> SocketOpen \<notin> set [CallMutate (example_params ''t1'') 7, SocketError ''ECONNREFUSED'',
                          SocketClose, CallInstrument JNull]
   \<and> list_all (\<lambda>x. send_state x = None \<and> \<not> is_send_failure x)
        (snd (run example_parse example_connected
                [CallMutate (example_params ''t1'') 7, SocketError ''ECONNREFUSED'',
                 SocketClose, CallInstrument JNull]))"
proof -
  have h: "webSocket example_connected = Some (example_socket CONNECTING)
      \<and> readyState (example_socket CONNECTING) \<noteq> OPEN
      \<and> port_promise example_connected \<noteq> Pending \<and> rpcClient example_connected \<noteq> None
      \<and> SocketOpen \<notin> set [CallMutate (example_params ''t1'') 7, SocketError ''ECONNREFUSED'',
                           SocketClose, CallInstrument JNull]"
    by (simp add: example_connected_def example_created_def example_socket_def)
  show ?thesis
    unfolding list_all_iff
    using h
      open_wait_never_rejects [where socket = "example_socket CONNECTING"
        and s = example_connected and JSON_parse = example_parse
        and es = "[CallMutate (example_params ''t1'') 7, SocketError ''ECONNREFUSED'',
                   SocketClose, CallInstrument JNull]"]
    by blast
qed

subsection \<open>Construction\<close>




end
